theory Spec2Isabelle
  imports Main
begin

section \<open>The background processor of the health companion\<close>

text \<open>
  A shallow embedding of \<^verbatim>\<open>src/processor/processor.py\<close> (class
  \<^verbatim>\<open>HealthDataProcessor\<close>). The Cosmos containers, the blob store, the vision and
  chat services, \<^verbatim>\<open>json.loads\<close> and the Service Bus receiver are collaborators outside
  the file: what they return, and whether they raise, is read from an environment
  record, one per loop iteration. An exception is the string \<^verbatim>\<open>str(e)\<close>.
  Every call that changes a collaborator is appended to a trace, every logger call to a
  log, so that the order and the number of the calls can be stated.

  Instants are microseconds since the epoch (UTC), as \<^verbatim>\<open>datetime.utcnow()\<close> has
  them. The stored \<^verbatim>\<open>timestamp\<close> strings are written by
  \<^verbatim>\<open>datetime.isoformat()\<close>; the store compares them as strings, which agrees with the
  order of the instants they denote, and the model identifies a timestamp with its
  instant. The clock is read once per operation.
\<close>

subsection \<open>Values, dictionaries, documents\<close>

datatype json =
    JNull
  | JBool bool
  | JNum int
  | JStr string
  | JArr "json list"
  | JObj "(string \<times> json) list"

type_synonym dict = "(string \<times> json) list"

definition dict_get :: "dict \<Rightarrow> string \<Rightarrow> json \<Rightarrow> json" where
  "dict_get d k dflt = (case map_of d k of Some v \<Rightarrow> v | None \<Rightarrow> dflt)"

fun dict_set :: "string \<Rightarrow> json \<Rightarrow> dict \<Rightarrow> dict" where
  "dict_set k v [] = [(k, v)]"
| "dict_set k v ((k', v') # d) =
     (if k' = k then (k, v) # d else (k', v') # dict_set k v d)"

text \<open>\<^verbatim>\<open>d.update({k1: v1, ...})\<close>: the keys are set from left to right.\<close>

definition dict_update :: "dict \<Rightarrow> dict \<Rightarrow> dict" where
  "dict_update d kvs = fold (\<lambda>(k, v). dict_set k v) kvs d"

text \<open>
  \<^verbatim>\<open>x.get(k, default)\<close> on the value \<^verbatim>\<open>json.loads\<close> returned: a dict answers, any
  other value has no attribute \<^verbatim>\<open>get\<close> and Python raises AttributeError. The
  exception is its message, written here without the quotation marks of Python's text.
\<close>

fun py_get :: "json \<Rightarrow> string \<Rightarrow> json \<Rightarrow> string + json" where
  "py_get (JObj d) k dflt = Inr (dict_get d k dflt)"
| "py_get JNull k dflt = Inl ''NoneType object has no attribute get''"
| "py_get (JBool b) k dflt = Inl ''bool object has no attribute get''"
| "py_get (JNum n) k dflt = Inl ''int object has no attribute get''"
| "py_get (JStr s) k dflt = Inl ''str object has no attribute get''"
| "py_get (JArr xs) k dflt = Inl ''list object has no attribute get''"

text \<open>
  A document of the FoodHistory or MedicalRecords container. The keys the processor
  reads have a field each (\<^verbatim>\<open>id\<close>, \<^verbatim>\<open>userId\<close>, \<^verbatim>\<open>status\<close>, \<^verbatim>\<open>timestamp\<close>,
  \<^verbatim>\<open>type\<close>, \<^verbatim>\<open>processedAt\<close>, \<^verbatim>\<open>error\<close>); every other key (the payload path, the
  analysis results) is an entry of \<open>attrs\<close>. A document written without a
  \<^verbatim>\<open>status\<close> has a status other than \<^verbatim>\<open>'pending'\<close>.
\<close>

record item =
  item_id :: string
  userId :: string
  status :: string
  timestamp :: int
  item_type :: string
  processedAt :: "int option"
  error :: "string option"
  attrs :: dict

text \<open>A record of the Recommendations container (daily insights, health trends).\<close>

record insight =
  insight_id :: string
  insight_userId :: string
  insight_type :: string
  content :: dict
  generatedAt :: int
  range_start :: int
  range_end :: int
  dataPoints :: "nat option"

record blob =
  blob_name :: string
  last_modified :: int

datatype call =
    UpsertItem string item
  | UpsertInsight insight
  | DeleteItem string string string
  | DeleteBlob string string
  | CompleteMessage string
  | AbandonMessage string

datatype log_entry = Info string | Error string

record world =
  food_container :: "item list"
  medical_container :: "item list"
  recommendations_container :: "insight list"
  food_images :: "blob list"
  medical_documents :: "blob list"
  calls :: "call list"
  logs :: "log_entry list"

text \<open>
  What the collaborators do during one operation: \<open>Inl e\<close> and \<open>Some e\<close> are a
  raised exception with \<^verbatim>\<open>str(e) = e\<close>.
\<close>

record env =
  utcnow :: int
  date_isoformat :: "int \<Rightarrow> string"
  query_error :: "string \<Rightarrow> string option"
  upsert_error :: "string \<Rightarrow> item \<Rightarrow> string option"
  upsert_insight_error :: "insight \<Rightarrow> string option"
  delete_error :: "string \<Rightarrow> string \<Rightarrow> string \<Rightarrow> string option"
  list_blobs_error :: "string \<Rightarrow> string option"
  delete_blob_error :: "string \<Rightarrow> string \<Rightarrow> string option"
  download_blob :: "string \<Rightarrow> json \<Rightarrow> string + string"
  vision_analyze :: "string list \<Rightarrow> string \<Rightarrow> string + string"
  chat_completion :: "string \<Rightarrow> string \<Rightarrow> string + string"
  json_loads :: "string \<Rightarrow> string + json"
  json_dumps :: "item list \<Rightarrow> string"
  day_of_month :: "int \<Rightarrow> int"
  complete_error :: "string \<Rightarrow> string option"

subsection \<open>Time\<close>

definition second :: int where "second = 1000000"
definition minute_len :: int where "minute_len = 60 * second"
definition hour_len :: int where "hour_len = 3600 * second"
definition day_len :: int where "day_len = 86400 * second"

text \<open>\<^verbatim>\<open>timedelta(days=n)\<close>\<close>

definition days :: "int \<Rightarrow> int" where
  "days n = n * day_len"

subsection \<open>Containers\<close>

text \<open>
  A container holds at most one document per partition key (\<^verbatim>\<open>userId\<close>) and id.
  \<^verbatim>\<open>upsert_item\<close> replaces the document with the key of the new one, or adds it;
  \<^verbatim>\<open>delete_item(item=id, partition_key=pk)\<close> removes it.
\<close>

definition item_key :: "item \<Rightarrow> string \<times> string" where
  "item_key x = (userId x, item_id x)"

definition insight_key :: "insight \<Rightarrow> string \<times> string" where
  "insight_key r = (insight_userId r, insight_id r)"

definition upsert_by :: "('a \<Rightarrow> 'k) \<Rightarrow> 'a \<Rightarrow> 'a list \<Rightarrow> 'a list" where
  "upsert_by key x xs =
     (if key x \<in> key ` set xs then map (\<lambda>y. if key y = key x then x else y) xs
      else xs @ [x])"

definition delete_by :: "('a \<Rightarrow> 'k) \<Rightarrow> 'k \<Rightarrow> 'a list \<Rightarrow> 'a list" where
  "delete_by key k xs = filter (\<lambda>y. key y \<noteq> k) xs"

definition container_of :: "string \<Rightarrow> world \<Rightarrow> item list" where
  "container_of name w =
     (if name = ''FoodHistory'' then food_container w else medical_container w)"

definition set_container :: "string \<Rightarrow> item list \<Rightarrow> world \<Rightarrow> world" where
  "set_container name c w =
     (if name = ''FoodHistory'' then w\<lparr>food_container := c\<rparr>
      else w\<lparr>medical_container := c\<rparr>)"

text \<open>\<^verbatim>\<open>SELECT * FROM c WHERE c.status = 'pending' ORDER BY c.timestamp ASC\<close>\<close>

definition query_pending :: "item list \<Rightarrow> item list" where
  "query_pending c = sort_key timestamp (filter (\<lambda>x. status x = ''pending'') c)"

text \<open>A \<^verbatim>\<open>for\<close> loop whose body may raise: the exception ends the loop.\<close>

fun for_each :: "(world \<Rightarrow> 'a \<Rightarrow> string option \<times> world) \<Rightarrow> 'a list \<Rightarrow> world \<Rightarrow> string option \<times> world" where
  "for_each f [] w = (None, w)"
| "for_each f (x # xs) w =
     (case f w x of
        (Some e, w') \<Rightarrow> (Some e, w')
      | (None, w') \<Rightarrow> for_each f xs w')"

definition log_info :: "string \<Rightarrow> world \<Rightarrow> world" where
  "log_info m w = w\<lparr>logs := logs w @ [Info m]\<rparr>"

definition log_error :: "string \<Rightarrow> world \<Rightarrow> world" where
  "log_error m w = w\<lparr>logs := logs w @ [Error m]\<rparr>"

subsection \<open>The drainer: \<^verbatim>\<open>process_pending_analyses\<close>\<close>

text \<open>
  \<^verbatim>\<open>food_container.upsert_item(item)\<close>, \<^verbatim>\<open>medical_container.upsert_item(item)\<close>:
  the call is recorded; an upsert that raises leaves the container as it was.
\<close>

definition upsert_item :: "env \<Rightarrow> string \<Rightarrow> item \<Rightarrow> world \<Rightarrow> string option \<times> world" where
  "upsert_item env name x w =
     (let w1 = w\<lparr>calls := calls w @ [UpsertItem name x]\<rparr>
      in case upsert_error env name x of
           Some e \<Rightarrow> (Some e, w1)
         | None \<Rightarrow>
             (None, set_container name (upsert_by item_key x (container_of name w1)) w1))"

text \<open>
  The \<^verbatim>\<open>try\<close> block of \<^verbatim>\<open>process_food_analysis\<close> up to the update of the item:
  download the image, analyse it, ask for the nutritional analysis, parse the answer
  and read its four keys.
\<close>

definition food_prompt :: "string \<Rightarrow> string" where
  "food_prompt vision_result =
     ''Analyze this food image and provide detailed nutritional information: '' @ vision_result"

text \<open>
  The dictionary passed to \<^verbatim>\<open>item.update\<close>, without \<^verbatim>\<open>status\<close> and
  \<^verbatim>\<open>processedAt\<close>: four \<^verbatim>\<open>analysis_result.get(key, default)\<close>.
\<close>

definition food_results :: "json \<Rightarrow> string + dict" where
  "food_results analysis_result =
     (case py_get analysis_result ''food_items'' (JArr []) of
        Inl e \<Rightarrow> Inl e
      | Inr food_items \<Rightarrow>
     (case py_get analysis_result ''nutrition_info'' (JObj []) of
        Inl e \<Rightarrow> Inl e
      | Inr nutrition_info \<Rightarrow>
     (case py_get analysis_result ''health_assessment'' (JObj []) of
        Inl e \<Rightarrow> Inl e
      | Inr health_assessment \<Rightarrow>
     (case py_get analysis_result ''recommendations'' (JArr []) of
        Inl e \<Rightarrow> Inl e
      | Inr recommendations \<Rightarrow>
          Inr [(''foodItems'', food_items),
               (''nutritionInfo'', nutrition_info),
               (''healthAssessment'', health_assessment),
               (''recommendations'', recommendations)]))))"

text \<open>The calls up to \<^verbatim>\<open>json.loads\<close>: the parsed answer of the chat service.\<close>

definition food_response :: "env \<Rightarrow> item \<Rightarrow> string + json" where
  "food_response env x =
     (case download_blob env ''food-images'' (dict_get (attrs x) ''imagePath'' (JStr [])) of
        Inl e \<Rightarrow> Inl e
      | Inr image_data \<Rightarrow>
     (case vision_analyze env [''OBJECTS'', ''TAGS'', ''CAPTION''] image_data of
        Inl e \<Rightarrow> Inl e
      | Inr vision_result \<Rightarrow>
     (case chat_completion env ''You are an expert nutritionist and health analyst.''
             (food_prompt vision_result) of
        Inl e \<Rightarrow> Inl e
      | Inr response \<Rightarrow> json_loads env response)))"

definition food_analysis :: "env \<Rightarrow> item \<Rightarrow> string + dict" where
  "food_analysis env x =
     (case food_response env x of
        Inl e \<Rightarrow> Inl e
      | Inr analysis_result \<Rightarrow> food_results analysis_result)"

text \<open>The \<^verbatim>\<open>except\<close> block: log, mark the item failed, upsert it.\<close>

definition mark_failed :: "env \<Rightarrow> item \<Rightarrow> string \<Rightarrow> item" where
  "mark_failed env x e =
     x\<lparr>status := ''failed'', error := Some e, processedAt := Some (utcnow env)\<rparr>"

definition mark_completed :: "env \<Rightarrow> item \<Rightarrow> dict \<Rightarrow> item" where
  "mark_completed env x results =
     x\<lparr>status := ''completed'', attrs := dict_update (attrs x) results,
       processedAt := Some (utcnow env)\<rparr>"

text \<open>
  \<^verbatim>\<open>process_food_analysis\<close> and \<^verbatim>\<open>process_medical_analysis\<close> are the same code around
  their \<^verbatim>\<open>try\<close> blocks: on success update the item, upsert it and log; on any
  exception of the block (the upsert's too, after the update of the item) log, mark the
  item failed and upsert it, outside any handler.
\<close>

definition process_analysis ::
  "string \<Rightarrow> string \<Rightarrow> (item \<Rightarrow> string + dict) \<Rightarrow> env \<Rightarrow> world \<Rightarrow> item \<Rightarrow> string option \<times> world" where
  "process_analysis name kind analysis env w x =
     (case analysis x of
        Inl e \<Rightarrow>
          upsert_item env name (mark_failed env x e)
            (log_error (''Error processing '' @ kind @ '' analysis '' @ item_id x @ '': '' @ e) w)
      | Inr results \<Rightarrow>
          (let x' = mark_completed env x results
           in case upsert_item env name x' w of
                (Some e, w') \<Rightarrow>
                  upsert_item env name (mark_failed env x' e)
                    (log_error (''Error processing '' @ kind @ '' analysis '' @ item_id x @ '': '' @ e) w')
              | (None, w') \<Rightarrow>
                  (None, log_info (''Processed '' @ kind @ '' analysis for item '' @ item_id x) w')))"

definition process_food_analysis :: "env \<Rightarrow> world \<Rightarrow> item \<Rightarrow> string option \<times> world" where
  "process_food_analysis env w x =
     process_analysis ''FoodHistory'' ''food'' (food_analysis env) env w x"

definition medical_prompt :: "json \<Rightarrow> string \<Rightarrow> string" where
  "medical_prompt document_type extracted_text =
     ''Analyze this medical document and provide comprehensive medical insights: ''
       @ (case document_type of JStr s \<Rightarrow> s | _ \<Rightarrow> []) @ '' '' @ extracted_text"

definition medical_results :: "string \<Rightarrow> json \<Rightarrow> string + dict" where
  "medical_results extracted_text analysis_result =
     (case py_get analysis_result ''key_findings'' (JArr []) of
        Inl e \<Rightarrow> Inl e
      | Inr key_findings \<Rightarrow>
     (case py_get analysis_result ''metrics'' (JObj []) of
        Inl e \<Rightarrow> Inl e
      | Inr metrics \<Rightarrow>
     (case py_get analysis_result ''risk_assessment'' (JObj []) of
        Inl e \<Rightarrow> Inl e
      | Inr risk_assessment \<Rightarrow>
     (case py_get analysis_result ''follow_up_actions'' (JArr []) of
        Inl e \<Rightarrow> Inl e
      | Inr follow_up_actions \<Rightarrow>
     (case py_get analysis_result ''lifestyle_recommendations'' (JArr []) of
        Inl e \<Rightarrow> Inl e
      | Inr lifestyle_recommendations \<Rightarrow>
          Inr [(''extractedText'', JStr extracted_text),
               (''keyFindings'', key_findings),
               (''metrics'', metrics),
               (''riskAssessment'', risk_assessment),
               (''followUpActions'', follow_up_actions),
               (''lifestyleRecommendations'', lifestyle_recommendations)])))))"

text \<open>The text read from the document, and the parsed answer of the chat service.\<close>

definition medical_response :: "env \<Rightarrow> item \<Rightarrow> string + string \<times> json" where
  "medical_response env x =
     (case download_blob env ''medical-documents'' (dict_get (attrs x) ''documentPath'' (JStr [])) of
        Inl e \<Rightarrow> Inl e
      | Inr document_data \<Rightarrow>
     (case vision_analyze env [''READ''] document_data of
        Inl e \<Rightarrow> Inl e
      | Inr extracted_text \<Rightarrow>
     (case chat_completion env
             ''You are a medical AI assistant. Provide analysis for informational purposes only.''
             (medical_prompt (dict_get (attrs x) ''documentType'' (JStr ''general'')) extracted_text) of
        Inl e \<Rightarrow> Inl e
      | Inr response \<Rightarrow>
     (case json_loads env response of
        Inl e \<Rightarrow> Inl e
      | Inr analysis_result \<Rightarrow> Inr (extracted_text, analysis_result)))))"

definition medical_analysis :: "env \<Rightarrow> item \<Rightarrow> string + dict" where
  "medical_analysis env x =
     (case medical_response env x of
        Inl e \<Rightarrow> Inl e
      | Inr (extracted_text, analysis_result) \<Rightarrow> medical_results extracted_text analysis_result)"

definition process_medical_analysis :: "env \<Rightarrow> world \<Rightarrow> item \<Rightarrow> string option \<times> world" where
  "process_medical_analysis env w x =
     process_analysis ''MedicalRecords'' ''medical'' (medical_analysis env) env w x"

text \<open>
  One iteration of the \<^verbatim>\<open>while self.running\<close> loop of
  \<^verbatim>\<open>process_pending_analyses\<close>, without the sleep: the spec's \<^verbatim>\<open>drainOnce()\<close>. Both
  queries run before the first item is processed.
\<close>

definition drain_body :: "env \<Rightarrow> world \<Rightarrow> string option \<times> world" where
  "drain_body env w =
     (case query_error env ''FoodHistory'' of
        Some e \<Rightarrow> (Some e, w)
      | None \<Rightarrow>
     (let pending_food = query_pending (food_container w)
      in case query_error env ''MedicalRecords'' of
        Some e \<Rightarrow> (Some e, w)
      | None \<Rightarrow>
     (let pending_medical = query_pending (medical_container w)
      in case for_each (process_food_analysis env) pending_food w of
        (Some e, w') \<Rightarrow> (Some e, w')
      | (None, w') \<Rightarrow> for_each (process_medical_analysis env) pending_medical w')))"

definition drainOnce :: "env \<Rightarrow> world \<Rightarrow> world" where
  "drainOnce env w =
     (case drain_body env w of
        (Some e, w') \<Rightarrow> log_error (''Error in process_pending_analyses: '' @ e) w'
      | (None, w') \<Rightarrow> w')"

text \<open>
  The loop itself: one environment per iteration, until \<^verbatim>\<open>self.running\<close> is found
  false.
\<close>

definition process_pending_analyses :: "env list \<Rightarrow> world \<Rightarrow> world" where
  "process_pending_analyses envs w = fold drainOnce envs w"

subsection \<open>Daily insights: \<^verbatim>\<open>generate_daily_insights\<close>\<close>

text \<open>
  \<^verbatim>\<open>SELECT * FROM c WHERE c.userId = @userId AND c.timestamp >= @cutoff ORDER BY
  c.timestamp\<close>, \<^verbatim>\<open>ASC\<close> and \<^verbatim>\<open>DESC\<close>.
\<close>

definition query_user_since :: "string \<Rightarrow> int \<Rightarrow> item list \<Rightarrow> item list" where
  "query_user_since user_id cutoff c =
     sort_key timestamp (filter (\<lambda>x. userId x = user_id \<and> cutoff \<le> timestamp x) c)"

definition query_user_since_desc :: "string \<Rightarrow> int \<Rightarrow> item list \<Rightarrow> item list" where
  "query_user_since_desc user_id cutoff c = rev (query_user_since user_id cutoff c)"

text \<open>\<^verbatim>\<open>SELECT DISTINCT c.userId FROM c WHERE c.timestamp >= @cutoff\<close>\<close>

definition query_users_since :: "int \<Rightarrow> item list \<Rightarrow> string list" where
  "query_users_since cutoff c = remdups (map userId (filter (\<lambda>x. cutoff \<le> timestamp x) c))"

definition recommendations_upsert :: "env \<Rightarrow> insight \<Rightarrow> world \<Rightarrow> string option \<times> world" where
  "recommendations_upsert env r w =
     (let w1 = w\<lparr>calls := calls w @ [UpsertInsight r]\<rparr>
      in case upsert_insight_error env r of
           Some e \<Rightarrow> (Some e, w1)
         | None \<Rightarrow>
             (None, w1\<lparr>recommendations_container :=
                upsert_by insight_key r (recommendations_container w1)\<rparr>))"

definition date_of :: "int \<Rightarrow> int" where
  "date_of t = t div day_len"

definition insights_prompt :: "env \<Rightarrow> item list \<Rightarrow> item list \<Rightarrow> string" where
  "insights_prompt env recent_food recent_medical =
     ''Generate comprehensive daily health insights for this user based on their recent activity: ''
       @ json_dumps env (take 10 recent_food) @ '' '' @ json_dumps env (take 5 recent_medical)"

definition daily_insight_record :: "env \<Rightarrow> string \<Rightarrow> json \<Rightarrow> string + insight" where
  "daily_insight_record env user_id daily_insights =
     (case py_get daily_insights ''nutritional_trends'' (JObj []) of
        Inl e \<Rightarrow> Inl e
      | Inr nutritional_trends \<Rightarrow>
     (case py_get daily_insights ''health_status'' (JObj []) of
        Inl e \<Rightarrow> Inl e
      | Inr health_status \<Rightarrow>
     (case py_get daily_insights ''daily_recommendations'' (JArr []) of
        Inl e \<Rightarrow> Inl e
      | Inr daily_recommendations \<Rightarrow>
     (case py_get daily_insights ''long_term_goals'' (JArr []) of
        Inl e \<Rightarrow> Inl e
      | Inr long_term_goals \<Rightarrow>
     (case py_get daily_insights ''risk_factors'' (JArr []) of
        Inl e \<Rightarrow> Inl e
      | Inr risk_factors \<Rightarrow>
          Inr \<lparr>insight_id = user_id @ ''-insights-'' @ date_isoformat env (date_of (utcnow env)),
               insight_userId = user_id,
               insight_type = ''daily_insights'',
               content = [(''nutritionalTrends'', nutritional_trends),
                          (''healthStatus'', health_status),
                          (''dailyRecommendations'', daily_recommendations),
                          (''longTermGoals'', long_term_goals),
                          (''riskFactors'', risk_factors)],
               generatedAt = utcnow env,
               range_start = utcnow env - days 7,
               range_end = utcnow env,
               dataPoints = None\<rparr>)))))"

text \<open>The \<^verbatim>\<open>try\<close> block of \<^verbatim>\<open>generate_user_daily_insights\<close>.\<close>

definition daily_insights_body :: "env \<Rightarrow> world \<Rightarrow> string \<Rightarrow> string option \<times> world" where
  "daily_insights_body env w user_id =
     (let recent_cutoff = utcnow env - days 7
      in case query_error env ''FoodHistory'' of
        Some e \<Rightarrow> (Some e, w)
      | None \<Rightarrow>
     (let recent_food = query_user_since_desc user_id recent_cutoff (food_container w)
      in case query_error env ''MedicalRecords'' of
        Some e \<Rightarrow> (Some e, w)
      | None \<Rightarrow>
     (let recent_medical = query_user_since_desc user_id recent_cutoff (medical_container w)
      in if recent_food = [] \<and> recent_medical = [] then (None, w)
      else
     (case chat_completion env
             ''You are a comprehensive health AI analyst providing personalized insights.''
             (insights_prompt env recent_food recent_medical) of
        Inl e \<Rightarrow> (Some e, w)
      | Inr response \<Rightarrow>
     (case json_loads env response of
        Inl e \<Rightarrow> (Some e, w)
      | Inr daily_insights \<Rightarrow>
     (case daily_insight_record env user_id daily_insights of
        Inl e \<Rightarrow> (Some e, w)
      | Inr insight_record \<Rightarrow>
     (case recommendations_upsert env insight_record w of
        (Some e, w') \<Rightarrow> (Some e, w')
      | (None, w') \<Rightarrow>
          (None, log_info (''Generated daily insights for user '' @ user_id) w'))))))))"

definition generate_user_daily_insights :: "env \<Rightarrow> world \<Rightarrow> string \<Rightarrow> string option \<times> world" where
  "generate_user_daily_insights env w user_id =
     (case daily_insights_body env w user_id of
        (Some e, w') \<Rightarrow>
          (None, log_error (''Error generating daily insights for user '' @ user_id @ '': '' @ e) w')
      | (None, w') \<Rightarrow> (None, w'))"

subsection \<open>The trigger predicates of the periodic jobs\<close>

definition hour_of :: "int \<Rightarrow> int" where
  "hour_of t = (t div hour_len) mod 24"

definition minute_of :: "int \<Rightarrow> int" where
  "minute_of t = (t div minute_len) mod 60"

text \<open>\<^verbatim>\<open>datetime.weekday()\<close>: Monday is 0; day 0 of the epoch was a Thursday.\<close>

definition weekday :: "int \<Rightarrow> int" where
  "weekday t = (date_of t + 3) mod 7"

text \<open>\<^verbatim>\<open>current_time.hour == 6 and current_time.minute == 0\<close>\<close>

definition daily_due :: "int \<Rightarrow> bool" where
  "daily_due t = (hour_of t = 6 \<and> minute_of t = 0)"

text \<open>\<^verbatim>\<open>current_time.weekday() == 6 and current_time.hour == 8\<close>\<close>

definition weekly_due :: "int \<Rightarrow> bool" where
  "weekly_due t = (weekday t = 6 \<and> hour_of t = 8)"

text \<open>
  \<^verbatim>\<open>current_time.day == 1 and current_time.hour == 2\<close>; the day of the month of a
  date is the calendar's, a function \<open>mday\<close> of the day number.
\<close>

definition monthly_due :: "(int \<Rightarrow> int) \<Rightarrow> int \<Rightarrow> bool" where
  "monthly_due mday t = (mday (date_of t) = 1 \<and> hour_of t = 2)"

text \<open>The body of the \<^verbatim>\<open>if\<close> of \<^verbatim>\<open>generate_daily_insights\<close>.\<close>

definition daily_job :: "env \<Rightarrow> world \<Rightarrow> string option \<times> world" where
  "daily_job env w =
     (let w0 = log_info ''Starting daily insights generation'' w;
          cutoff_date = utcnow env - days 30
      in case query_error env ''FoodHistory'' of
        Some e \<Rightarrow> (Some e, w0)
      | None \<Rightarrow>
     (case query_error env ''MedicalRecords'' of
        Some e \<Rightarrow> (Some e, w0)
      | None \<Rightarrow>
     (let users = remdups (query_users_since cutoff_date (food_container w0)
                    @ query_users_since cutoff_date (medical_container w0))
      in case for_each (generate_user_daily_insights env) users w0 of
        (Some e, w') \<Rightarrow> (Some e, w')
      | (None, w') \<Rightarrow> (None, log_info ''Daily insights generated'' w'))))"

text \<open>One iteration of the loop of \<^verbatim>\<open>generate_daily_insights\<close>, without the sleep.\<close>

definition generate_daily_insights_once :: "env \<Rightarrow> world \<Rightarrow> world" where
  "generate_daily_insights_once env w =
     (if daily_due (utcnow env) then
        (case daily_job env w of
           (Some e, w') \<Rightarrow> log_error (''Error in generate_daily_insights: '' @ e) w'
         | (None, w') \<Rightarrow> w')
      else w)"

text \<open>
  The instants at which a polling loop reads the clock: it starts at \<open>t\<close>; an iteration
  that read the clock at \<open>t\<close> spends \<open>d\<close> in its body (and in waking up late) and
  \<open>period\<close> in \<^verbatim>\<open>asyncio.sleep\<close>, on the success path and in the \<^verbatim>\<open>except\<close> block
  alike; the list of the \<open>d\<close> ends where \<^verbatim>\<open>self.running\<close> is found false. The
  processor keeps no state but \<^verbatim>\<open>self.running\<close>: whether an iteration runs its job
  depends on the instant alone.
\<close>

fun poll_times :: "int \<Rightarrow> int \<Rightarrow> nat list \<Rightarrow> int list" where
  "poll_times period t [] = []"
| "poll_times period t (d # ds) = t # poll_times period (t + int d + period) ds"

definition daily_fires :: "int \<Rightarrow> nat list \<Rightarrow> int list" where
  "daily_fires t ds = filter daily_due (poll_times minute_len t ds)"

definition weekly_fires :: "int \<Rightarrow> nat list \<Rightarrow> int list" where
  "weekly_fires t ds = filter weekly_due (poll_times hour_len t ds)"

definition monthly_fires :: "(int \<Rightarrow> int) \<Rightarrow> int \<Rightarrow> nat list \<Rightarrow> int list" where
  "monthly_fires mday t ds = filter (monthly_due mday) (poll_times hour_len t ds)"

text \<open>The week of an instant, Monday to Sunday.\<close>

definition week_of :: "int \<Rightarrow> int" where
  "week_of t = (date_of t + 3) div 7"

subsection \<open>Weekly trends: \<^verbatim>\<open>health_trend_analysis\<close>\<close>

definition trend_prompt :: "env \<Rightarrow> item list \<Rightarrow> item list \<Rightarrow> string" where
  "trend_prompt env food_history medical_history =
     ''Analyze long-term health trends for this user over the last 90 days: ''
       @ json_dumps env food_history @ '' '' @ json_dumps env medical_history"

definition trend_record :: "env \<Rightarrow> string \<Rightarrow> nat \<Rightarrow> json \<Rightarrow> string + insight" where
  "trend_record env user_id n trend_analysis =
     (case py_get trend_analysis ''nutritional_patterns'' (JObj []) of
        Inl e \<Rightarrow> Inl e
      | Inr nutritional_patterns \<Rightarrow>
     (case py_get trend_analysis ''health_metrics_trend'' (JObj []) of
        Inl e \<Rightarrow> Inl e
      | Inr health_metrics_trend \<Rightarrow>
     (case py_get trend_analysis ''behavioral_patterns'' (JObj []) of
        Inl e \<Rightarrow> Inl e
      | Inr behavioral_patterns \<Rightarrow>
     (case py_get trend_analysis ''risk_trends'' (JObj []) of
        Inl e \<Rightarrow> Inl e
      | Inr risk_trends \<Rightarrow>
     (case py_get trend_analysis ''health_trajectory'' (JObj []) of
        Inl e \<Rightarrow> Inl e
      | Inr health_trajectory \<Rightarrow>
     (case py_get trend_analysis ''interventions'' (JArr []) of
        Inl e \<Rightarrow> Inl e
      | Inr interventions \<Rightarrow>
          Inr \<lparr>insight_id = user_id @ ''-trends-'' @ date_isoformat env (date_of (utcnow env)),
               insight_userId = user_id,
               insight_type = ''health_trends'',
               content = [(''nutritionalPatterns'', nutritional_patterns),
                          (''healthMetricsTrend'', health_metrics_trend),
                          (''behavioralPatterns'', behavioral_patterns),
                          (''riskTrends'', risk_trends),
                          (''healthTrajectory'', health_trajectory),
                          (''interventions'', interventions)],
               generatedAt = utcnow env,
               range_start = utcnow env - days 90,
               range_end = utcnow env,
               dataPoints = Some n\<rparr>))))))"

text \<open>The \<^verbatim>\<open>try\<close> block of \<^verbatim>\<open>analyze_user_health_trends\<close>.\<close>

definition health_trends_body :: "env \<Rightarrow> world \<Rightarrow> string \<Rightarrow> string option \<times> world" where
  "health_trends_body env w user_id =
     (let trend_cutoff = utcnow env - days 90
      in case query_error env ''FoodHistory'' of
        Some e \<Rightarrow> (Some e, w)
      | None \<Rightarrow>
     (let food_history = query_user_since user_id trend_cutoff (food_container w)
      in case query_error env ''MedicalRecords'' of
        Some e \<Rightarrow> (Some e, w)
      | None \<Rightarrow>
     (let medical_history = query_user_since user_id trend_cutoff (medical_container w)
      in if length food_history < 5 then (None, w)
      else
     (case chat_completion env
             ''You are an expert health trend analyst providing longitudinal health assessments.''
             (trend_prompt env food_history medical_history) of
        Inl e \<Rightarrow> (Some e, w)
      | Inr response \<Rightarrow>
     (case json_loads env response of
        Inl e \<Rightarrow> (Some e, w)
      | Inr trend_analysis \<Rightarrow>
     (case trend_record env user_id (length food_history + length medical_history)
             trend_analysis of
        Inl e \<Rightarrow> (Some e, w)
      | Inr record \<Rightarrow>
     (case recommendations_upsert env record w of
        (Some e, w') \<Rightarrow> (Some e, w')
      | (None, w') \<Rightarrow>
          (None, log_info (''Generated health trend analysis for user '' @ user_id) w'))))))))"

definition analyze_user_health_trends :: "env \<Rightarrow> world \<Rightarrow> string \<Rightarrow> string option \<times> world" where
  "analyze_user_health_trends env w user_id =
     (case health_trends_body env w user_id of
        (Some e, w') \<Rightarrow>
          (None, log_error (''Error analyzing health trends for user '' @ user_id @ '': '' @ e) w')
      | (None, w') \<Rightarrow> (None, w'))"

definition weekly_job :: "env \<Rightarrow> world \<Rightarrow> string option \<times> world" where
  "weekly_job env w =
     (let w0 = log_info ''Starting weekly health trend analysis'' w;
          cutoff_date = utcnow env - days 30
      in case query_error env ''FoodHistory'' of
        Some e \<Rightarrow> (Some e, w0)
      | None \<Rightarrow>
     (case query_error env ''MedicalRecords'' of
        Some e \<Rightarrow> (Some e, w0)
      | None \<Rightarrow>
     (let active_users = remdups (query_users_since cutoff_date (food_container w0)
                           @ query_users_since cutoff_date (medical_container w0))
      in case for_each (analyze_user_health_trends env) active_users w0 of
        (Some e, w') \<Rightarrow> (Some e, w')
      | (None, w') \<Rightarrow> (None, log_info ''Health trend analysis completed'' w'))))"

definition health_trend_analysis_once :: "env \<Rightarrow> world \<Rightarrow> world" where
  "health_trend_analysis_once env w =
     (if weekly_due (utcnow env) then
        (case weekly_job env w of
           (Some e, w') \<Rightarrow> log_error (''Error in health_trend_analysis: '' @ e) w'
         | (None, w') \<Rightarrow> w')
      else w)"

subsection \<open>Monthly cleanup: \<^verbatim>\<open>cleanup_old_data\<close>\<close>

text \<open>\<^verbatim>\<open>container.delete_item(item=item['id'], partition_key=item['userId'])\<close>\<close>

definition delete_item :: "env \<Rightarrow> string \<Rightarrow> world \<Rightarrow> item \<Rightarrow> string option \<times> world" where
  "delete_item env name w x =
     (let w1 = w\<lparr>calls := calls w @ [DeleteItem name (item_id x) (userId x)]\<rparr>
      in case delete_error env name (item_id x) (userId x) of
           Some e \<Rightarrow> (Some e, w1)
         | None \<Rightarrow>
             (None, set_container name (delete_by item_key (item_key x) (container_of name w1)) w1))"

text \<open>\<^verbatim>\<open>SELECT c.id, c.userId FROM c WHERE c.timestamp < @cutoff\<close>\<close>

definition query_old_food :: "int \<Rightarrow> item list \<Rightarrow> item list" where
  "query_old_food cutoff c = filter (\<lambda>x. timestamp x < cutoff) c"

text \<open>
  \<^verbatim>\<open>SELECT c.id, c.userId FROM c WHERE c.timestamp < @cutoff AND c.type != 'critical'\<close>
\<close>

definition query_old_medical :: "int \<Rightarrow> item list \<Rightarrow> item list" where
  "query_old_medical cutoff c =
     filter (\<lambda>x. timestamp x < cutoff \<and> item_type x \<noteq> ''critical'') c"

definition blobs_of :: "string \<Rightarrow> world \<Rightarrow> blob list" where
  "blobs_of container_name w =
     (if container_name = ''food-images'' then food_images w else medical_documents w)"

definition set_blobs :: "string \<Rightarrow> blob list \<Rightarrow> world \<Rightarrow> world" where
  "set_blobs container_name bs w =
     (if container_name = ''food-images'' then w\<lparr>food_images := bs\<rparr>
      else w\<lparr>medical_documents := bs\<rparr>)"

definition delete_blob :: "env \<Rightarrow> string \<Rightarrow> world \<Rightarrow> string \<Rightarrow> string option \<times> world" where
  "delete_blob env container_name w name =
     (let w1 = w\<lparr>calls := calls w @ [DeleteBlob container_name name]\<rparr>
      in case delete_blob_error env container_name name of
           Some e \<Rightarrow> (Some e, w1)
         | None \<Rightarrow>
             (None, set_blobs container_name
                      (filter (\<lambda>b. blob_name b \<noteq> name) (blobs_of container_name w1)) w1))"

text \<open>The body of the loop over the two blob containers in \<^verbatim>\<open>cleanup_old_blobs\<close>.\<close>

definition sweep_container :: "env \<Rightarrow> int \<Rightarrow> world \<Rightarrow> string \<Rightarrow> string option \<times> world" where
  "sweep_container env cutoff_datetime w container_name =
     (case list_blobs_error env container_name of
        Some e \<Rightarrow> (Some e, w)
      | None \<Rightarrow>
     (let blobs_to_delete =
            map blob_name (filter (\<lambda>b. last_modified b < cutoff_datetime) (blobs_of container_name w))
      in case for_each (delete_blob env container_name) blobs_to_delete w of
        (Some e, w') \<Rightarrow> (Some e, w')
      | (None, w') \<Rightarrow> (None, log_info (''Deleted old blobs from '' @ container_name) w')))"

definition cleanup_old_blobs :: "env \<Rightarrow> int \<Rightarrow> world \<Rightarrow> world" where
  "cleanup_old_blobs env cutoff_date w =
     (case for_each (sweep_container env cutoff_date) [''food-images'', ''medical-documents''] w of
        (Some e, w') \<Rightarrow> log_error (''Error cleaning up old blobs: '' @ e) w'
      | (None, w') \<Rightarrow> w')"

text \<open>The body of the \<^verbatim>\<open>if\<close> of \<^verbatim>\<open>cleanup_old_data\<close>.\<close>

definition cleanup_job :: "env \<Rightarrow> world \<Rightarrow> string option \<times> world" where
  "cleanup_job env w =
     (let w0 = log_info ''Starting monthly data cleanup'' w;
          cleanup_cutoff = utcnow env - days 730
      in case query_error env ''FoodHistory'' of
        Some e \<Rightarrow> (Some e, w0)
      | None \<Rightarrow>
     (let old_food_items = query_old_food cleanup_cutoff (food_container w0)
      in case for_each (delete_item env ''FoodHistory'') old_food_items w0 of
        (Some e, w1) \<Rightarrow> (Some e, w1)
      | (None, w1) \<Rightarrow>
     (let old_medical_cutoff = utcnow env - days 1095
      in case query_error env ''MedicalRecords'' of
        Some e \<Rightarrow> (Some e, w1)
      | None \<Rightarrow>
     (let old_medical_items = query_old_medical old_medical_cutoff (medical_container w1)
      in case for_each (delete_item env ''MedicalRecords'') old_medical_items w1 of
        (Some e, w2) \<Rightarrow> (Some e, w2)
      | (None, w2) \<Rightarrow>
          (None, log_info ''Cleanup completed'' (cleanup_old_blobs env cleanup_cutoff w2))))))"

text \<open>A cleanup run: the job inside the \<^verbatim>\<open>try\<close> of the loop.\<close>

definition cleanup_run :: "env \<Rightarrow> world \<Rightarrow> world" where
  "cleanup_run env w =
     (case cleanup_job env w of
        (Some e, w') \<Rightarrow> log_error (''Error in cleanup_old_data: '' @ e) w'
      | (None, w') \<Rightarrow> w')"

definition cleanup_old_data_once :: "env \<Rightarrow> world \<Rightarrow> world" where
  "cleanup_old_data_once env w =
     (if monthly_due (day_of_month env) (utcnow env) then cleanup_run env w else w)"

subsection \<open>Notifications: \<^verbatim>\<open>process_service_bus_messages\<close>\<close>

text \<open>The three handlers are \<^verbatim>\<open>pass\<close>.\<close>

definition process_urgent_health_alert :: "world \<Rightarrow> json \<Rightarrow> json \<Rightarrow> string option \<times> world" where
  "process_urgent_health_alert w user_id message_data = (None, w)"

definition process_daily_reminder :: "world \<Rightarrow> json \<Rightarrow> json \<Rightarrow> string option \<times> world" where
  "process_daily_reminder w user_id message_data = (None, w)"

definition process_analysis_request :: "world \<Rightarrow> json \<Rightarrow> json \<Rightarrow> string option \<times> world" where
  "process_analysis_request w user_id message_data = (None, w)"

text \<open>The \<^verbatim>\<open>try\<close> block of \<^verbatim>\<open>handle_notification_message\<close>.\<close>

definition dispatch :: "world \<Rightarrow> json \<Rightarrow> string option \<times> world" where
  "dispatch w message_data =
     (case py_get message_data ''type'' JNull of
        Inl e \<Rightarrow> (Some e, w)
      | Inr message_type \<Rightarrow>
     (case py_get message_data ''userId'' JNull of
        Inl e \<Rightarrow> (Some e, w)
      | Inr user_id \<Rightarrow>
     (case (if message_type = JStr ''urgent_health_alert''
              then process_urgent_health_alert w user_id message_data
            else if message_type = JStr ''daily_reminder''
              then process_daily_reminder w user_id message_data
            else if message_type = JStr ''analysis_request''
              then process_analysis_request w user_id message_data
            else (None, w)) of
        (Some e, w') \<Rightarrow> (Some e, w')
      | (None, w') \<Rightarrow> (None, log_info ''Processed notification message'' w'))))"

definition handle_notification_message :: "world \<Rightarrow> json \<Rightarrow> string option \<times> world" where
  "handle_notification_message w message_data =
     (case dispatch w message_data of
        (Some e, w') \<Rightarrow> (None, log_error (''Error handling notification message: '' @ e) w')
      | (None, w') \<Rightarrow> (None, w'))"

definition abandon_message :: "string \<Rightarrow> string \<Rightarrow> world \<Rightarrow> world" where
  "abandon_message msg e w =
     (log_error (''Error processing Service Bus message: '' @ e) w)
       \<lparr>calls := calls w @ [AbandonMessage msg]\<rparr>"

text \<open>
  The body of \<^verbatim>\<open>for msg in receiver\<close>; \<open>msg\<close> is \<^verbatim>\<open>str(msg)\<close>, the body of the
  message.
\<close>

definition process_message :: "env \<Rightarrow> world \<Rightarrow> string \<Rightarrow> string option \<times> world" where
  "process_message env w msg =
     (case json_loads env msg of
        Inl e \<Rightarrow> (None, abandon_message msg e w)
      | Inr message_data \<Rightarrow>
     (case handle_notification_message w message_data of
        (Some e, w') \<Rightarrow> (None, abandon_message msg e w')
      | (None, w') \<Rightarrow>
     (let w1 = w'\<lparr>calls := calls w' @ [CompleteMessage msg]\<rparr>
      in case complete_error env msg of
           Some e \<Rightarrow> (None, abandon_message msg e w1)
         | None \<Rightarrow> (None, w1))))"

definition process_service_bus_messages_once :: "env \<Rightarrow> string list \<Rightarrow> world \<Rightarrow> world" where
  "process_service_bus_messages_once env msgs w = snd (for_each (process_message env) msgs w)"

subsection \<open>Sequences of operations on the store\<close>

datatype operation = Drain env | Cleanup env

fun run_operation :: "operation \<Rightarrow> world \<Rightarrow> world" where
  "run_operation (Drain env) w = drainOnce env w"
| "run_operation (Cleanup env) w = cleanup_run env w"

definition run_operations :: "operation list \<Rightarrow> world \<Rightarrow> world" where
  "run_operations ops w = fold run_operation ops w"

text \<open>The calls an operation added to the trace.\<close>

definition new_calls :: "world \<Rightarrow> world \<Rightarrow> call list" where
  "new_calls w w' = drop (length (calls w)) (calls w')"

subsection \<open>Reading the trace; concrete environments and stores\<close>

fun upserted :: "call \<Rightarrow> item list" where
  "upserted (UpsertItem name x) = [x]"
| "upserted c = []"

text \<open>The items an operation passed to \<^verbatim>\<open>upsert_item\<close>, in the order of the calls.\<close>

definition processed_items :: "world \<Rightarrow> world \<Rightarrow> item list" where
  "processed_items w w' = concat (map upserted (new_calls w w'))"

text \<open>An environment in which no collaborator raises and the chat service answers \<^verbatim>\<open>{}\<close>.\<close>

definition quiet_env :: env where
  "quiet_env =
     \<lparr>utcnow = 1700000000 * second,
      date_isoformat = (\<lambda>d. ''2023-11-14''),
      query_error = (\<lambda>name. None),
      upsert_error = (\<lambda>name x. None),
      upsert_insight_error = (\<lambda>r. None),
      delete_error = (\<lambda>name i pk. None),
      list_blobs_error = (\<lambda>name. None),
      delete_blob_error = (\<lambda>name b. None),
      download_blob = (\<lambda>name path. Inr ''bytes''),
      vision_analyze = (\<lambda>features data. Inr ''a bowl of salad''),
      chat_completion = (\<lambda>system_prompt prompt. Inr ''{}''),
      json_loads = (\<lambda>s. Inr (JObj [])),
      json_dumps = (\<lambda>xs. ''[]''),
      day_of_month = (\<lambda>d. 1),
      complete_error = (\<lambda>msg. None)\<rparr>"

definition pending_item :: "string \<Rightarrow> string \<Rightarrow> int \<Rightarrow> item" where
  "pending_item i u t =
     \<lparr>item_id = i, userId = u, status = ''pending'', timestamp = t,
      item_type = ''upload'', processedAt = None, error = None, attrs = []\<rparr>"

definition empty_world :: world where
  "empty_world =
     \<lparr>food_container = [], medical_container = [], recommendations_container = [],
      food_images = [], medical_documents = [], calls = [], logs = []\<rparr>"

text \<open>A pending food item, and a pending medical item uploaded one second before it.\<close>

definition two_kinds_world :: world where
  "two_kinds_world =
     empty_world\<lparr>food_container := [pending_item ''f1'' ''u1'' (1600000002 * second)],
                 medical_container := [pending_item ''m1'' ''u1'' (1600000001 * second)]\<rparr>"

text \<open>The calls made for an item have its timestamp and its key.\<close>

definition versions_of :: "item \<Rightarrow> item list \<Rightarrow> bool" where
  "versions_of x ys = (\<forall>y \<in> set ys. timestamp y = timestamp x \<and> item_key y = item_key x)"

text \<open>The chat service answers with a JSON array.\<close>

definition array_env :: env where
  "array_env = quiet_env\<lparr>chat_completion := (\<lambda>system_prompt prompt. Inr ''[]''),
                         json_loads := (\<lambda>s. Inr (JArr []))\<rparr>"

text \<open>The chat service answers with an object that has one of the expected keys.\<close>

definition partial_env :: env where
  "partial_env =
     quiet_env\<lparr>json_loads := (\<lambda>s. Inr (JObj [(''food_items'', JArr [JStr ''salad''])]))\<rparr>"

text \<open>A store whose items are recent at the instant of \<open>quiet_env\<close>.\<close>

definition recent_world :: world where
  "recent_world =
     empty_world\<lparr>food_container := [pending_item ''f1'' ''u1'' (1699990000 * second)],
                 medical_container := [pending_item ''m1'' ''u1'' (1699980000 * second)]\<rparr>"

subsection \<open>Plans of deletions\<close>



text \<open>The call \<^verbatim>\<open>delete_item\<close> makes for an item.\<close>

definition delete_call :: "string \<Rightarrow> item \<Rightarrow> call" where
  "delete_call name x = DeleteItem name (item_id x) (userId x)"



definition item_plan :: "env \<Rightarrow> world \<Rightarrow> call list" where
  "item_plan env w =
     map (delete_call ''FoodHistory'') (query_old_food (utcnow env - days 730) (food_container w))
     @ map (delete_call ''MedicalRecords'')
         (query_old_medical (utcnow env - days 1095) (medical_container w))"


text \<open>The part of \<^verbatim>\<open>cleanup_job\<close> that deletes items.\<close>

definition cleanup_items :: "env \<Rightarrow> world \<Rightarrow> string option \<times> world" where
  "cleanup_items env w =
     (case query_error env ''FoodHistory'' of
        Some e \<Rightarrow> (Some e, w)
      | None \<Rightarrow>
     (case for_each (delete_item env ''FoodHistory'')
             (query_old_food (utcnow env - days 730) (food_container w)) w of
        (Some e, w1) \<Rightarrow> (Some e, w1)
      | (None, w1) \<Rightarrow>
     (case query_error env ''MedicalRecords'' of
        Some e \<Rightarrow> (Some e, w1)
      | None \<Rightarrow>
          for_each (delete_item env ''MedicalRecords'')
            (query_old_medical (utcnow env - days 1095) (medical_container w1)) w1)))"


text \<open>Two food items and a blob more than 730 days old; the first deletion fails.\<close>

definition old_item :: "string \<Rightarrow> string \<Rightarrow> string \<Rightarrow> int \<Rightarrow> item" where
  "old_item i u ty t =
     \<lparr>item_id = i, userId = u, status = ''completed'', timestamp = t,
      item_type = ty, processedAt = Some t, error = None, attrs = []\<rparr>"



text \<open>
  Food items 731, 730 and 729 days old, a critical medical item 2000 days old, and
  medical items 1096 and 800 days old, at the instant of \<open>quiet_env\<close>.
\<close>

definition retention_world :: world where
  "retention_world =
     empty_world\<lparr>food_container :=
                   [old_item ''f731'' ''u1'' ''food_analysis'' (utcnow quiet_env - days 731),
                    old_item ''f730'' ''u1'' ''food_analysis'' (utcnow quiet_env - days 730),
                    old_item ''f729'' ''u1'' ''food_analysis'' (utcnow quiet_env - days 729)],
                 medical_container :=
                   [old_item ''m2000'' ''u1'' ''critical'' (utcnow quiet_env - days 2000),
                    old_item ''m1096'' ''u1'' ''medical_document'' (utcnow quiet_env - days 1096),
                    old_item ''m800'' ''u1'' ''medical_document'' (utcnow quiet_env - days 800)]\<rparr>"

text \<open>
  User u1 has five food items in the last 90 days; user u2 has three, and two older ones.
\<close>

definition trend_world :: world where
  "trend_world =
     empty_world\<lparr>food_container :=
       [old_item ''a1'' ''u1'' ''food_analysis'' (utcnow quiet_env - days 1),
        old_item ''a2'' ''u1'' ''food_analysis'' (utcnow quiet_env - days 2),
        old_item ''a3'' ''u1'' ''food_analysis'' (utcnow quiet_env - days 3),
        old_item ''a4'' ''u1'' ''food_analysis'' (utcnow quiet_env - days 4),
        old_item ''a5'' ''u1'' ''food_analysis'' (utcnow quiet_env - days 5),
        old_item ''b1'' ''u2'' ''food_analysis'' (utcnow quiet_env - days 1),
        old_item ''b2'' ''u2'' ''food_analysis'' (utcnow quiet_env - days 2),
        old_item ''b3'' ''u2'' ''food_analysis'' (utcnow quiet_env - days 3),
        old_item ''b4'' ''u2'' ''food_analysis'' (utcnow quiet_env - days 100),
        old_item ''b5'' ''u2'' ''food_analysis'' (utcnow quiet_env - days 101)]\<rparr>"

text \<open>The chat service raises at every call.\<close>

definition chat_fail_env :: env where
  "chat_fail_env =
     quiet_env\<lparr>chat_completion := (\<lambda>system_prompt prompt. Inl ''Request timed out.'')\<rparr>"




text \<open>
  Two readings of the clock on 2023-11-15, at 06:00:05 and at 06:00:40 UTC: a processor
  that is stopped and started again within the minute polls at both.
\<close>

definition first_poll_env :: env where
  "first_poll_env = quiet_env\<lparr>utcnow := 1700028005 * second\<rparr>"

definition second_poll_env :: env where
  "second_poll_env = quiet_env\<lparr>utcnow := 1700028040 * second\<rparr>"

text \<open>A day-of-month function that is 1 on day 19662 of the epoch, 2023-11-01.\<close>

definition first_of_november :: "int \<Rightarrow> int" where
  "first_of_november d = (if d = 19662 then 1 else 1 + (d - 19662) mod 28)"

subsection \<open>Versions of an item\<close>

text \<open>
  What \<^verbatim>\<open>process_food_analysis\<close> or \<^verbatim>\<open>process_medical_analysis\<close> leaves in the
  container for an item: the version of the last upsert that did not raise, or nothing
  when the upsert of the \<^verbatim>\<open>except\<close> block raised too (the exception then leaves the
  function).
\<close>

definition stored_version :: "env \<Rightarrow> string \<Rightarrow> (item \<Rightarrow> string + dict) \<Rightarrow> item \<Rightarrow> item option" where
  "stored_version env name analysis x =
     (case analysis x of
        Inl e \<Rightarrow>
          (if upsert_error env name (mark_failed env x e) = None
           then Some (mark_failed env x e) else None)
      | Inr results \<Rightarrow>
          (case upsert_error env name (mark_completed env x results) of
             None \<Rightarrow> Some (mark_completed env x results)
           | Some e \<Rightarrow>
               (if upsert_error env name (mark_failed env (mark_completed env x results) e) = None
                then Some (mark_failed env (mark_completed env x results) e) else None)))"

text \<open>The container an operation on \<open>name\<close> does not write.\<close>

definition other_container :: "string \<Rightarrow> world \<Rightarrow> item list" where
  "other_container name w =
     (if name = ''FoodHistory'' then medical_container w else food_container w)"

text \<open>A version of an item that an operation at \<open>utcnow env\<close> brought to a terminal status.\<close>

definition terminal_version :: "env \<Rightarrow> item \<Rightarrow> item \<Rightarrow> bool" where
  "terminal_version env x v =
     (item_key v = item_key x \<and> timestamp v = timestamp x
      \<and> (status v = ''completed'' \<or> status v = ''failed'')
      \<and> processedAt v = Some (utcnow env))"

text \<open>The items of a drain processed before the first exception that leaves the loop.\<close>

definition processed_prefix :: "env \<Rightarrow> string \<Rightarrow> (item \<Rightarrow> string + dict) \<Rightarrow> item list \<Rightarrow> item list" where
  "processed_prefix env name analysis xs =
     takeWhile (\<lambda>x. stored_version env name analysis x \<noteq> None) xs"

text \<open>The instants at which the drains of a sequence of operations read the clock.\<close>

fun drain_time :: "operation \<Rightarrow> int list" where
  "drain_time (Drain env) = [utcnow env]"
| "drain_time (Cleanup env) = []"

definition drain_times :: "operation list \<Rightarrow> int set" where
  "drain_times ops = set (concat (map drain_time ops))"

text \<open>
  How a stored item may differ from an earlier version of it: not at all, or the earlier
  version was pending and the later one is completed or failed, with \<^verbatim>\<open>processedAt\<close> the
  instant of one of the drains.
\<close>

definition evolves :: "int set \<Rightarrow> item \<Rightarrow> item \<Rightarrow> bool" where
  "evolves T a b =
     (b = a \<or> (status a = ''pending'' \<and> (status b = ''completed'' \<or> status b = ''failed'')
               \<and> processedAt b \<in> Some ` T \<and> item_key b = item_key a))"

text \<open>The same for one drain.\<close>

definition step_of :: "env \<Rightarrow> item \<Rightarrow> item \<Rightarrow> bool" where
  "step_of env a b = (b = a \<or> (status a = ''pending'' \<and> terminal_version env a b))"

text \<open>Both containers hold one document per key.\<close>

definition store_ok :: "world \<Rightarrow> bool" where
  "store_ok w = (distinct (map item_key (food_container w))
                 \<and> distinct (map item_key (medical_container w)))"


text \<open>The version stored for an item when the store accepts every upsert.\<close>

definition final_version :: "env \<Rightarrow> (item \<Rightarrow> string + dict) \<Rightarrow> item \<Rightarrow> item" where
  "final_version env analysis x =
     (case analysis x of
        Inl e \<Rightarrow> mark_failed env x e
      | Inr results \<Rightarrow> mark_completed env x results)"


section \<open>Properties\<close>

subsection \<open>The order of a drain\<close>

lemma calls_log_error [simp]: "calls (log_error m w) = calls w"
  by (simp add: log_error_def)

lemma calls_log_info [simp]: "calls (log_info m w) = calls w"
  by (simp add: log_info_def)

lemma calls_set_container [simp]: "calls (set_container name c w) = calls w"
  by (simp add: set_container_def)

lemma upsert_item_calls:
  "calls (snd (upsert_item env name x w)) = calls w @ [UpsertItem name x]"
  by (simp add: upsert_item_def Let_def split: option.splits)

lemma mark_failed_same [simp]:
  "timestamp (mark_failed env x e) = timestamp x"
  "item_key (mark_failed env x e) = item_key x"
  by (simp_all add: mark_failed_def item_key_def)

lemma mark_completed_same [simp]:
  "timestamp (mark_completed env x r) = timestamp x"
  "item_key (mark_completed env x r) = item_key x"
  by (simp_all add: mark_completed_def item_key_def)

lemma process_analysis_calls:
  "\<exists>ys. calls (snd (process_analysis name kind analysis env w x)) = calls w @ map (UpsertItem name) ys
     \<and> versions_of x ys"
proof (cases "analysis x")
  case (Inl e)
  then show ?thesis
    by (intro exI [of _ "[mark_failed env x e]"])
       (simp add: process_analysis_def upsert_item_calls versions_of_def)
next
  case (Inr results)
  let ?x' = "mark_completed env x results"
  show ?thesis
  proof (cases "upsert_item env name ?x' w")
    case (Pair r w')
    have c: "calls w' = calls w @ [UpsertItem name ?x']"
      using upsert_item_calls [of env name ?x' w] Pair by simp
    show ?thesis
    proof (cases r)
      case None
      with Inr Pair c show ?thesis
        by (intro exI [of _ "[?x']"])
           (simp add: process_analysis_def Let_def versions_of_def)
    next
      case (Some e)
      with Inr Pair c show ?thesis
        by (intro exI [of _ "[?x', mark_failed env ?x' e]"])
           (simp add: process_analysis_def Let_def upsert_item_calls versions_of_def)
    qed
  qed
qed

lemma for_each_process_calls:
  "sorted (map timestamp xs) \<Longrightarrow>
   \<exists>ys. calls (snd (for_each (process_analysis name kind analysis env) xs w))
           = calls w @ map (UpsertItem name) ys
     \<and> sorted (map timestamp ys)
     \<and> timestamp ` set ys \<subseteq> timestamp ` set xs
     \<and> item_key ` set ys \<subseteq> item_key ` set xs"
proof (induction xs arbitrary: w)
  case Nil
  show ?case by (intro exI [of _ "[]"]) simp
next
  case (Cons x xs)
  obtain r w1 where p: "process_analysis name kind analysis env w x = (r, w1)"
    by (cases "process_analysis name kind analysis env w x")
  obtain ys where ys: "calls w1 = calls w @ map (UpsertItem name) ys" "versions_of x ys"
    using process_analysis_calls [of name kind analysis env w x] p by auto
  have sy: "sorted (map timestamp ys)"
    using ys(2) by (induction ys) (auto simp: versions_of_def)
  show ?case
  proof (cases r)
    case (Some e)
    with p ys sy show ?thesis
      by (intro exI [of _ ys]) (auto simp: versions_of_def)
  next
    case None
    from Cons.prems have s: "sorted (map timestamp xs)" by simp
    obtain zs where zs:
      "calls (snd (for_each (process_analysis name kind analysis env) xs w1))
         = calls w1 @ map (UpsertItem name) zs"
      "sorted (map timestamp zs)"
      "timestamp ` set zs \<subseteq> timestamp ` set xs"
      "item_key ` set zs \<subseteq> item_key ` set xs"
      using Cons.IH [OF s, of w1] by blast
    have le: "\<forall>y \<in> set ys. \<forall>z \<in> set zs. timestamp y \<le> timestamp z"
      using ys(2) zs(3) Cons.prems by (auto simp: versions_of_def)
    have "sorted (map timestamp (ys @ zs))"
      using sy zs(2) le by (auto simp: sorted_append)
    with None p ys zs show ?thesis
      by (intro exI [of _ "ys @ zs"]) (auto simp: versions_of_def)
  qed
qed

lemma sorted_query_pending: "sorted (map timestamp (query_pending c))"
  by (simp add: query_pending_def)

lemma new_calls_append: "calls w' = calls w @ cs \<Longrightarrow> new_calls w w' = cs"
  by (simp add: new_calls_def)

lemma drain_body_calls:
  "\<exists>fs ms. calls (snd (drain_body env w)) =
       calls w @ map (UpsertItem ''FoodHistory'') fs @ map (UpsertItem ''MedicalRecords'') ms
     \<and> sorted (map timestamp fs) \<and> sorted (map timestamp ms)
     \<and> item_key ` set fs \<subseteq> item_key ` set (query_pending (food_container w))
     \<and> item_key ` set ms \<subseteq> item_key ` set (query_pending (medical_container w))"
proof (cases "query_error env ''FoodHistory'' = None \<and> query_error env ''MedicalRecords'' = None")
  case False
  then have "snd (drain_body env w) = w"
    by (auto simp: drain_body_def Let_def split: option.splits)
  then show ?thesis
    by (intro exI [of _ "[]"]) simp
next
  case True
  let ?pf = "query_pending (food_container w)"
  let ?pm = "query_pending (medical_container w)"
  obtain r w1 where f: "for_each (process_food_analysis env) ?pf w = (r, w1)"
    by (cases "for_each (process_food_analysis env) ?pf w")
  have pfa: "process_food_analysis env = process_analysis ''FoodHistory'' ''food'' (food_analysis env) env"
    by (intro ext) (simp add: process_food_analysis_def)
  have pma: "process_medical_analysis env = process_analysis ''MedicalRecords'' ''medical'' (medical_analysis env) env"
    by (intro ext) (simp add: process_medical_analysis_def)
  obtain fs where fs: "calls w1 = calls w @ map (UpsertItem ''FoodHistory'') fs"
      "sorted (map timestamp fs)" "item_key ` set fs \<subseteq> item_key ` set ?pf"
    using for_each_process_calls [OF sorted_query_pending, of "''FoodHistory''" "''food''" "food_analysis env" env "food_container w" w]
      f pfa by auto
  show ?thesis
  proof (cases r)
    case (Some e)
    with True f have "snd (drain_body env w) = w1"
      by (simp add: drain_body_def Let_def)
    with fs show ?thesis
      by (intro exI [of _ fs] exI [of _ "[]"]) simp
  next
    case None
    with True f have d: "drain_body env w = for_each (process_medical_analysis env) ?pm w1"
      by (simp add: drain_body_def Let_def)
    obtain ms where ms:
      "calls (snd (for_each (process_medical_analysis env) ?pm w1)) = calls w1 @ map (UpsertItem ''MedicalRecords'') ms"
      "sorted (map timestamp ms)" "item_key ` set ms \<subseteq> item_key ` set ?pm"
      using for_each_process_calls [OF sorted_query_pending, of "''MedicalRecords''" "''medical''" "medical_analysis env" env "medical_container w" w1]
        pma by auto
    with fs d show ?thesis
      by (intro exI [of _ fs] exI [of _ ms]) simp
  qed
qed

text \<open>
  C2 (as amended). A drain passes the items to \<^verbatim>\<open>upsert_item\<close> kind by kind: first
  pending food items in non-decreasing timestamp order, then pending medical items in
  non-decreasing timestamp order. The two kinds are not merged.
\<close>

theorem drainOnce_order_by_kind:
  "\<exists>fs ms. new_calls w (drainOnce env w) =
       map (UpsertItem ''FoodHistory'') fs @ map (UpsertItem ''MedicalRecords'') ms
     \<and> sorted (map timestamp fs) \<and> sorted (map timestamp ms)
     \<and> item_key ` set fs \<subseteq> item_key ` set (query_pending (food_container w))
     \<and> item_key ` set ms \<subseteq> item_key ` set (query_pending (medical_container w))"
proof -
  obtain r w' where b: "drain_body env w = (r, w')"
    by (cases "drain_body env w")
  then have "calls (drainOnce env w) = calls (snd (drain_body env w))"
    by (cases r) (simp_all add: drainOnce_def)
  moreover obtain fs ms where
    "calls (snd (drain_body env w)) =
       calls w @ map (UpsertItem ''FoodHistory'') fs @ map (UpsertItem ''MedicalRecords'') ms"
    "sorted (map timestamp fs)" "sorted (map timestamp ms)"
    "item_key ` set fs \<subseteq> item_key ` set (query_pending (food_container w))"
    "item_key ` set ms \<subseteq> item_key ` set (query_pending (medical_container w))"
    using drain_body_calls [of env w] by blast
  ultimately show ?thesis
    by (intro exI [of _ fs] exI [of _ ms]) (simp add: new_calls_def)
qed

lemma two_kinds_world_order: "map timestamp (processed_items two_kinds_world (drainOnce quiet_env two_kinds_world)) = [1600000002 * second, 1600000001 * second]"
  by (simp add: processed_items_def new_calls_def drainOnce_def drain_body_def two_kinds_world_def
      empty_world_def quiet_env_def query_pending_def pending_item_def process_food_analysis_def
      process_medical_analysis_def process_analysis_def food_analysis_def medical_analysis_def
      food_results_def medical_results_def food_response_def medical_response_def
      upsert_item_def mark_completed_def mark_failed_def log_info_def log_error_def
      set_container_def container_of_def upsert_by_def item_key_def dict_get_def dict_update_def Let_def)

text \<open>
  C2 (as stated) fails: the food item is processed before the medical item, which is
  one second older.
\<close>

theorem drainOnce_merged_order_counterexample:
  "\<not> sorted (map timestamp (processed_items two_kinds_world (drainOnce quiet_env two_kinds_world)))"
  by (simp add: two_kinds_world_order second_def)

subsection \<open>Answers with missing keys\<close>

lemma map_of_dict_set: "map_of (dict_set k v d) = (map_of d)(k \<mapsto> v)"
  by (induction d) (auto simp: fun_eq_iff)

lemma dict_get_absent: "map_of d k = None \<Longrightarrow> dict_get d k dflt = dflt"
  by (simp add: dict_get_def)

lemma food_results_object:
  "food_results (JObj d) =
     Inr [(''foodItems'', dict_get d ''food_items'' (JArr [])),
          (''nutritionInfo'', dict_get d ''nutrition_info'' (JObj [])),
          (''healthAssessment'', dict_get d ''health_assessment'' (JObj [])),
          (''recommendations'', dict_get d ''recommendations'' (JArr []))]"
  by (simp add: food_results_def)

lemma medical_results_object:
  "medical_results text (JObj d) =
     Inr [(''extractedText'', JStr text),
          (''keyFindings'', dict_get d ''key_findings'' (JArr [])),
          (''metrics'', dict_get d ''metrics'' (JObj [])),
          (''riskAssessment'', dict_get d ''risk_assessment'' (JObj [])),
          (''followUpActions'', dict_get d ''follow_up_actions'' (JArr [])),
          (''lifestyleRecommendations'', dict_get d ''lifestyle_recommendations'' (JArr []))]"
  by (simp add: medical_results_def)

lemma process_analysis_completed:
  assumes "analysis x = Inr results"
    and "upsert_error env name (mark_completed env x results) = None"
  shows "fst (process_analysis name kind analysis env w x) = None"
    and "container_of name (snd (process_analysis name kind analysis env w x))
           = upsert_by item_key (mark_completed env x results) (container_of name w)"
    and "new_calls w (snd (process_analysis name kind analysis env w x))
           = [UpsertItem name (mark_completed env x results)]"
  using assms
  by (simp_all add: process_analysis_def upsert_item_def Let_def log_info_def
      set_container_def container_of_def new_calls_def)

lemma daily_insight_record_object:
  "daily_insight_record env user_id (JObj d) =
     Inr \<lparr>insight_id = user_id @ ''-insights-'' @ date_isoformat env (date_of (utcnow env)),
          insight_userId = user_id,
          insight_type = ''daily_insights'',
          content = [(''nutritionalTrends'', dict_get d ''nutritional_trends'' (JObj [])),
                     (''healthStatus'', dict_get d ''health_status'' (JObj [])),
                     (''dailyRecommendations'', dict_get d ''daily_recommendations'' (JArr [])),
                     (''longTermGoals'', dict_get d ''long_term_goals'' (JArr [])),
                     (''riskFactors'', dict_get d ''risk_factors'' (JArr []))],
          generatedAt = utcnow env,
          range_start = utcnow env - days 7,
          range_end = utcnow env,
          dataPoints = None\<rparr>"
  by (simp add: daily_insight_record_def)

lemma food_missing_keys:
  assumes "food_response env x = Inr (JObj d)"
    and "upsert_error env ''FoodHistory'' (mark_completed env x
            [(''foodItems'', dict_get d ''food_items'' (JArr [])),
             (''nutritionInfo'', dict_get d ''nutrition_info'' (JObj [])),
             (''healthAssessment'', dict_get d ''health_assessment'' (JObj [])),
             (''recommendations'', dict_get d ''recommendations'' (JArr []))]) = None"
  shows "fst (process_food_analysis env w x) = None \<and>
         food_container (snd (process_food_analysis env w x)) =
           upsert_by item_key (mark_completed env x
            [(''foodItems'', dict_get d ''food_items'' (JArr [])),
             (''nutritionInfo'', dict_get d ''nutrition_info'' (JObj [])),
             (''healthAssessment'', dict_get d ''health_assessment'' (JObj [])),
             (''recommendations'', dict_get d ''recommendations'' (JArr []))]) (food_container w)"
proof -
  have a: "food_analysis env x = Inr
            [(''foodItems'', dict_get d ''food_items'' (JArr [])),
             (''nutritionInfo'', dict_get d ''nutrition_info'' (JObj [])),
             (''healthAssessment'', dict_get d ''health_assessment'' (JObj [])),
             (''recommendations'', dict_get d ''recommendations'' (JArr []))]"
    using assms(1) by (simp add: food_analysis_def food_results_object)
  show ?thesis
    using process_analysis_completed(1,2) [of "food_analysis env", OF a assms(2), of "''food''" w]
    by (simp add: process_food_analysis_def container_of_def)
qed

lemma medical_missing_keys:
  assumes "medical_response env x = Inr (text, JObj d)"
    and "upsert_error env ''MedicalRecords'' (mark_completed env x
            [(''extractedText'', JStr text),
             (''keyFindings'', dict_get d ''key_findings'' (JArr [])),
             (''metrics'', dict_get d ''metrics'' (JObj [])),
             (''riskAssessment'', dict_get d ''risk_assessment'' (JObj [])),
             (''followUpActions'', dict_get d ''follow_up_actions'' (JArr [])),
             (''lifestyleRecommendations'', dict_get d ''lifestyle_recommendations'' (JArr []))]) = None"
  shows "fst (process_medical_analysis env w x) = None \<and>
         medical_container (snd (process_medical_analysis env w x)) =
           upsert_by item_key (mark_completed env x
            [(''extractedText'', JStr text),
             (''keyFindings'', dict_get d ''key_findings'' (JArr [])),
             (''metrics'', dict_get d ''metrics'' (JObj [])),
             (''riskAssessment'', dict_get d ''risk_assessment'' (JObj [])),
             (''followUpActions'', dict_get d ''follow_up_actions'' (JArr [])),
             (''lifestyleRecommendations'', dict_get d ''lifestyle_recommendations'' (JArr []))])
             (medical_container w)"
proof -
  have a: "medical_analysis env x = Inr
            [(''extractedText'', JStr text),
             (''keyFindings'', dict_get d ''key_findings'' (JArr [])),
             (''metrics'', dict_get d ''metrics'' (JObj [])),
             (''riskAssessment'', dict_get d ''risk_assessment'' (JObj [])),
             (''followUpActions'', dict_get d ''follow_up_actions'' (JArr [])),
             (''lifestyleRecommendations'', dict_get d ''lifestyle_recommendations'' (JArr []))]"
    using assms(1) by (simp add: medical_analysis_def medical_results_object)
  show ?thesis
    using process_analysis_completed(1,2) [of "medical_analysis env", OF a assms(2), of "''medical''" w]
    by (simp add: process_medical_analysis_def container_of_def)
qed

lemma daily_missing_keys:
  assumes "query_error env ''FoodHistory'' = None" and "query_error env ''MedicalRecords'' = None"
    and "recent_food = query_user_since_desc user_id (utcnow env - days 7) (food_container w)"
    and "recent_medical = query_user_since_desc user_id (utcnow env - days 7) (medical_container w)"
    and "recent_food \<noteq> [] \<or> recent_medical \<noteq> []"
    and "chat_completion env
           ''You are a comprehensive health AI analyst providing personalized insights.''
           (insights_prompt env recent_food recent_medical) = Inr response"
    and "json_loads env response = Inr (JObj d)"
    and "daily_insight_record env user_id (JObj d) = Inr r"
    and "upsert_insight_error env r = None"
  shows "recommendations_container (snd (generate_user_daily_insights env w user_id)) =
           upsert_by insight_key r (recommendations_container w)"
  using assms
  by (auto simp: generate_user_daily_insights_def daily_insights_body_def Let_def
      recommendations_upsert_def log_info_def)

lemma non_object_response_fails:
  "food_analysis array_env x = Inl ''list object has no attribute get''"
  by (simp add: food_analysis_def food_response_def food_results_def array_env_def quiet_env_def)

lemma non_object_results:
  assumes "\<forall>d. j \<noteq> JObj d"
  shows "\<exists>e. food_results j = Inl e"
    and "\<exists>e. medical_results text j = Inl e"
    and "\<exists>e. daily_insight_record env user_id j = Inl e"
  using assms
  by (cases j; simp add: food_results_def medical_results_def daily_insight_record_def)+

text \<open>
  C10 (as amended). When the parsed answer of the chat service is a JSON object
  \<open>d\<close>, every expected key is read with \<^verbatim>\<open>get(key, default)\<close>, so an absent key
  gives the empty list or map. If the calls before \<^verbatim>\<open>json.loads\<close> succeeded and the
  store accepts the upsert, the food or medical item is stored completed with these values
  (its \<^verbatim>\<open>error\<close> untouched), and the daily insight record is upserted with them.
  When the parsed answer is any other JSON value, reading the first key raises and no
  result is built.
\<close>

theorem missing_keys_default:
  "(map_of d k = None \<longrightarrow> dict_get d k dflt = dflt)
   \<and> food_results (JObj d) =
       Inr [(''foodItems'', dict_get d ''food_items'' (JArr [])),
            (''nutritionInfo'', dict_get d ''nutrition_info'' (JObj [])),
            (''healthAssessment'', dict_get d ''health_assessment'' (JObj [])),
            (''recommendations'', dict_get d ''recommendations'' (JArr []))]
   \<and> medical_results text (JObj d) =
       Inr [(''extractedText'', JStr text),
            (''keyFindings'', dict_get d ''key_findings'' (JArr [])),
            (''metrics'', dict_get d ''metrics'' (JObj [])),
            (''riskAssessment'', dict_get d ''risk_assessment'' (JObj [])),
            (''followUpActions'', dict_get d ''follow_up_actions'' (JArr [])),
            (''lifestyleRecommendations'', dict_get d ''lifestyle_recommendations'' (JArr []))]
   \<and> (\<exists>r. daily_insight_record env user_id (JObj d) = Inr r
          \<and> content r =
              [(''nutritionalTrends'', dict_get d ''nutritional_trends'' (JObj [])),
               (''healthStatus'', dict_get d ''health_status'' (JObj [])),
               (''dailyRecommendations'', dict_get d ''daily_recommendations'' (JArr [])),
               (''longTermGoals'', dict_get d ''long_term_goals'' (JArr [])),
               (''riskFactors'', dict_get d ''risk_factors'' (JArr []))])
   \<and> (food_response env x = Inr (JObj d) \<longrightarrow> food_results (JObj d) = Inr res \<longrightarrow>
        upsert_error env ''FoodHistory'' (mark_completed env x res) = None \<longrightarrow>
          fst (process_food_analysis env w x) = None
          \<and> food_container (snd (process_food_analysis env w x)) =
              upsert_by item_key (mark_completed env x res) (food_container w)
          \<and> status (mark_completed env x res) = ''completed''
          \<and> error (mark_completed env x res) = error x)
   \<and> (medical_response env y = Inr (text, JObj d) \<longrightarrow>
        medical_results text (JObj d) = Inr mres \<longrightarrow>
        upsert_error env ''MedicalRecords'' (mark_completed env y mres) = None \<longrightarrow>
          fst (process_medical_analysis env w y) = None
          \<and> medical_container (snd (process_medical_analysis env w y)) =
              upsert_by item_key (mark_completed env y mres) (medical_container w)
          \<and> status (mark_completed env y mres) = ''completed''
          \<and> error (mark_completed env y mres) = error y)
   \<and> (query_error env ''FoodHistory'' = None \<longrightarrow> query_error env ''MedicalRecords'' = None \<longrightarrow>
        recent_food = query_user_since_desc user_id (utcnow env - days 7) (food_container w) \<longrightarrow>
        recent_medical = query_user_since_desc user_id (utcnow env - days 7) (medical_container w) \<longrightarrow>
        recent_food \<noteq> [] \<or> recent_medical \<noteq> [] \<longrightarrow>
        chat_completion env
          ''You are a comprehensive health AI analyst providing personalized insights.''
          (insights_prompt env recent_food recent_medical) = Inr response \<longrightarrow>
        json_loads env response = Inr (JObj d) \<longrightarrow>
        daily_insight_record env user_id (JObj d) = Inr r \<longrightarrow>
        upsert_insight_error env r = None \<longrightarrow>
          recommendations_container (snd (generate_user_daily_insights env w user_id)) =
            upsert_by insight_key r (recommendations_container w))
   \<and> ((\<forall>d. j \<noteq> JObj d) \<longrightarrow>
        (\<exists>e. food_results j = Inl e) \<and> (\<exists>e. medical_results text j = Inl e)
        \<and> (\<exists>e. daily_insight_record env user_id j = Inl e))"
proof (intro conjI impI)
  show "dict_get d k dflt = dflt" if "map_of d k = None"
    using that by (rule dict_get_absent)
  show "food_results (JObj d) =
       Inr [(''foodItems'', dict_get d ''food_items'' (JArr [])),
            (''nutritionInfo'', dict_get d ''nutrition_info'' (JObj [])),
            (''healthAssessment'', dict_get d ''health_assessment'' (JObj [])),
            (''recommendations'', dict_get d ''recommendations'' (JArr []))]"
    by (rule food_results_object)
  show "medical_results text (JObj d) =
       Inr [(''extractedText'', JStr text),
            (''keyFindings'', dict_get d ''key_findings'' (JArr [])),
            (''metrics'', dict_get d ''metrics'' (JObj [])),
            (''riskAssessment'', dict_get d ''risk_assessment'' (JObj [])),
            (''followUpActions'', dict_get d ''follow_up_actions'' (JArr [])),
            (''lifestyleRecommendations'', dict_get d ''lifestyle_recommendations'' (JArr []))]"
    by (rule medical_results_object)
  show "\<exists>r. daily_insight_record env user_id (JObj d) = Inr r
          \<and> content r =
              [(''nutritionalTrends'', dict_get d ''nutritional_trends'' (JObj [])),
               (''healthStatus'', dict_get d ''health_status'' (JObj [])),
               (''dailyRecommendations'', dict_get d ''daily_recommendations'' (JArr [])),
               (''longTermGoals'', dict_get d ''long_term_goals'' (JArr [])),
               (''riskFactors'', dict_get d ''risk_factors'' (JArr []))]"
    by (simp add: daily_insight_record_object)
next
  assume h: "food_response env x = Inr (JObj d)" "food_results (JObj d) = Inr res"
    "upsert_error env ''FoodHistory'' (mark_completed env x res) = None"
  from h(2) have res: "res = [(''foodItems'', dict_get d ''food_items'' (JArr [])),
            (''nutritionInfo'', dict_get d ''nutrition_info'' (JObj [])),
            (''healthAssessment'', dict_get d ''health_assessment'' (JObj [])),
            (''recommendations'', dict_get d ''recommendations'' (JArr []))]"
    by (simp add: food_results_object)
  from food_missing_keys [OF h(1), where w = w] h(3) res
  show "fst (process_food_analysis env w x) = None"
    and "food_container (snd (process_food_analysis env w x)) =
              upsert_by item_key (mark_completed env x res) (food_container w)"
    by simp_all
  show "status (mark_completed env x res) = ''completed''"
    and "error (mark_completed env x res) = error x"
    by (simp_all add: mark_completed_def)
next
  assume h: "medical_response env y = Inr (text, JObj d)" "medical_results text (JObj d) = Inr mres"
    "upsert_error env ''MedicalRecords'' (mark_completed env y mres) = None"
  from h(2) have res: "mres = [(''extractedText'', JStr text),
            (''keyFindings'', dict_get d ''key_findings'' (JArr [])),
            (''metrics'', dict_get d ''metrics'' (JObj [])),
            (''riskAssessment'', dict_get d ''risk_assessment'' (JObj [])),
            (''followUpActions'', dict_get d ''follow_up_actions'' (JArr [])),
            (''lifestyleRecommendations'', dict_get d ''lifestyle_recommendations'' (JArr []))]"
    by (simp add: medical_results_object)
  from medical_missing_keys [OF h(1), where w = w] h(3) res
  show "fst (process_medical_analysis env w y) = None"
    and "medical_container (snd (process_medical_analysis env w y)) =
              upsert_by item_key (mark_completed env y mres) (medical_container w)"
    by simp_all
  show "status (mark_completed env y mres) = ''completed''"
    and "error (mark_completed env y mres) = error y"
    by (simp_all add: mark_completed_def)
next
  assume "query_error env ''FoodHistory'' = None" "query_error env ''MedicalRecords'' = None"
    "recent_food = query_user_since_desc user_id (utcnow env - days 7) (food_container w)"
    "recent_medical = query_user_since_desc user_id (utcnow env - days 7) (medical_container w)"
    "recent_food \<noteq> [] \<or> recent_medical \<noteq> []"
    "chat_completion env
          ''You are a comprehensive health AI analyst providing personalized insights.''
          (insights_prompt env recent_food recent_medical) = Inr response"
    "json_loads env response = Inr (JObj d)"
    "daily_insight_record env user_id (JObj d) = Inr r"
    "upsert_insight_error env r = None"
  then show "recommendations_container (snd (generate_user_daily_insights env w user_id)) =
            upsert_by insight_key r (recommendations_container w)"
    by (rule daily_missing_keys)
next
  assume h: "\<forall>d. j \<noteq> JObj d"
  show "\<exists>e. food_results j = Inl e"
    and "\<exists>e. medical_results text j = Inl e"
    and "\<exists>e. daily_insight_record env user_id j = Inl e"
    by (rule non_object_results [OF h])+
qed

lemma partial_env_food_response:
  "food_response partial_env (pending_item ''f1'' ''u1'' (1699990000 * second))
     = Inr (JObj [(''food_items'', JArr [JStr ''salad''])])"
  by (simp add: food_response_def partial_env_def quiet_env_def)

lemma partial_env_medical_response:
  "medical_response partial_env (pending_item ''m1'' ''u1'' (1699980000 * second))
     = Inr (''a bowl of salad'', JObj [(''food_items'', JArr [JStr ''salad''])])"
  by (simp add: medical_response_def partial_env_def quiet_env_def)

lemma recent_world_queries:
  "query_user_since_desc ''u1'' (utcnow partial_env - days 7) (food_container recent_world)
     = [pending_item ''f1'' ''u1'' (1699990000 * second)]"
  "query_user_since_desc ''u1'' (utcnow partial_env - days 7) (medical_container recent_world)
     = [pending_item ''m1'' ''u1'' (1699980000 * second)]"
  by (simp_all add: query_user_since_desc_def query_user_since_def recent_world_def
      empty_world_def partial_env_def quiet_env_def pending_item_def days_def day_len_def second_def)

theorem missing_keys_default_witness:
  "map status (food_container (snd (process_food_analysis partial_env recent_world
       (pending_item ''f1'' ''u1'' (1699990000 * second))))) = [''completed'']
   \<and> map attrs (food_container (snd (process_food_analysis partial_env recent_world
       (pending_item ''f1'' ''u1'' (1699990000 * second))))) =
       [[(''foodItems'', JArr [JStr ''salad'']), (''nutritionInfo'', JObj []),
         (''healthAssessment'', JObj []), (''recommendations'', JArr [])]]
   \<and> map status (medical_container (snd (process_medical_analysis partial_env recent_world
       (pending_item ''m1'' ''u1'' (1699980000 * second))))) = [''completed'']
   \<and> map attrs (medical_container (snd (process_medical_analysis partial_env recent_world
       (pending_item ''m1'' ''u1'' (1699980000 * second))))) =
       [[(''extractedText'', JStr ''a bowl of salad''), (''keyFindings'', JArr []),
         (''metrics'', JObj []), (''riskAssessment'', JObj []), (''followUpActions'', JArr []),
         (''lifestyleRecommendations'', JArr [])]]
   \<and> map content (recommendations_container
         (snd (generate_user_daily_insights partial_env recent_world ''u1''))) =
       [[(''nutritionalTrends'', JObj []), (''healthStatus'', JObj []),
         (''dailyRecommendations'', JArr []), (''longTermGoals'', JArr []),
         (''riskFactors'', JArr [])]]"
  using missing_keys_default [of "[(''food_items'', JArr [JStr ''salad''])]" "''nutrition_info''" JNull
      "''a bowl of salad''" partial_env "''u1''"
      "pending_item ''f1'' ''u1'' (1699990000 * second)"
      "[(''foodItems'', JArr [JStr ''salad'']), (''nutritionInfo'', JObj []),
         (''healthAssessment'', JObj []), (''recommendations'', JArr [])]"
      recent_world
      "pending_item ''m1'' ''u1'' (1699980000 * second)"
      "[(''extractedText'', JStr ''a bowl of salad''), (''keyFindings'', JArr []),
         (''metrics'', JObj []), (''riskAssessment'', JObj []), (''followUpActions'', JArr []),
         (''lifestyleRecommendations'', JArr [])]"
      "[pending_item ''f1'' ''u1'' (1699990000 * second)]"
      "[pending_item ''m1'' ''u1'' (1699980000 * second)]"
      "''{}''"
      "\<lparr>insight_id = ''u1-insights-2023-11-14'', insight_userId = ''u1'',
        insight_type = ''daily_insights'',
        content = [(''nutritionalTrends'', JObj []), (''healthStatus'', JObj []),
         (''dailyRecommendations'', JArr []), (''longTermGoals'', JArr []),
         (''riskFactors'', JArr [])],
        generatedAt = utcnow partial_env, range_start = utcnow partial_env - days 7,
        range_end = utcnow partial_env, dataPoints = None\<rparr>"]
    partial_env_food_response partial_env_medical_response recent_world_queries
  by (simp add: food_results_def medical_results_def daily_insight_record_def dict_get_def
      mark_completed_def dict_update_def upsert_by_def item_key_def insight_key_def
      recent_world_def empty_world_def pending_item_def partial_env_def quiet_env_def)

lemma recent_world_parts:
  "food_container recent_world = [pending_item ''f1'' ''u1'' (1699990000 * second)]"
  "medical_container recent_world = [pending_item ''m1'' ''u1'' (1699980000 * second)]"
  "calls recent_world = []" "logs recent_world = []" "recommendations_container recent_world = []"
  by (simp_all add: recent_world_def empty_world_def)

lemma array_env_facts:
  "query_error array_env name = None"
  "upsert_error array_env name x = None"
  "chat_completion array_env system_prompt prompt = Inr ''[]''"
  "json_loads array_env s = Inr (JArr [])"
  "utcnow array_env = 1700000000 * second"
  by (simp_all add: array_env_def quiet_env_def)

lemma array_env_food:
  "food_container (snd (process_food_analysis array_env recent_world
       (pending_item ''f1'' ''u1'' (1699990000 * second))))
     = [mark_failed array_env (pending_item ''f1'' ''u1'' (1699990000 * second))
          ''list object has no attribute get'']"
  by (simp add: process_food_analysis_def process_analysis_def non_object_response_fails
      upsert_item_def Let_def log_error_def set_container_def container_of_def
      array_env_facts recent_world_parts upsert_by_def item_key_def mark_failed_def
      pending_item_def)

lemma array_env_insights:
  "recommendations_container (snd (generate_user_daily_insights array_env recent_world ''u1'')) = []"
  "logs (snd (generate_user_daily_insights array_env recent_world ''u1''))
     = [Error ''Error generating daily insights for user u1: list object has no attribute get'']"
  by (simp_all add: generate_user_daily_insights_def daily_insights_body_def
      daily_insight_record_def query_user_since_desc_def query_user_since_def Let_def
      log_error_def array_env_facts recent_world_parts pending_item_def
      days_def day_len_def second_def)

text \<open>
  C10 (as stated) fails: the answer \<^verbatim>\<open>[]\<close> of the chat service parses as valid JSON
  and has none of the expected keys; the food item is stored failed with the error of the
  first \<^verbatim>\<open>get\<close>, and no daily insight record is written.
\<close>

theorem non_object_answer_counterexample:
  "json_loads array_env ''[]'' = Inr (JArr [])
   \<and> map status (food_container (snd (process_food_analysis array_env recent_world
         (pending_item ''f1'' ''u1'' (1699990000 * second))))) = [''failed'']
   \<and> map error (food_container (snd (process_food_analysis array_env recent_world
         (pending_item ''f1'' ''u1'' (1699990000 * second)))))
       = [Some ''list object has no attribute get'']
   \<and> recommendations_container (snd (generate_user_daily_insights array_env recent_world ''u1'')) = []
   \<and> logs (snd (generate_user_daily_insights array_env recent_world ''u1''))
       = [Error ''Error generating daily insights for user u1: list object has no attribute get'']"
  by (simp add: array_env_food array_env_insights array_env_facts mark_failed_def)

subsection \<open>A deletion that raises ends the cleanup run\<close>


















lemma cleanup_job_items:
  "cleanup_job env w =
     (case cleanup_items env (log_info ''Starting monthly data cleanup'' w) of
        (Some e, w2) \<Rightarrow> (Some e, w2)
      | (None, w2) \<Rightarrow>
          (None, log_info ''Cleanup completed'' (cleanup_old_blobs env (utcnow env - days 730) w2)))"
  by (simp add: cleanup_job_def cleanup_items_def Let_def split: option.splits prod.splits)




lemma item_plan_log_info [simp]: "item_plan env (log_info m w) = item_plan env w"
  by (simp add: item_plan_def log_info_def)

lemma blobs_log_info [simp]:
  "food_images (log_info m w) = food_images w"
  "medical_documents (log_info m w) = medical_documents w"
  by (simp_all add: log_info_def)





subsection \<open>Settling a notification message\<close>

text \<open>
  C9 fails on the code: the message \<^verbatim>\<open>[]\<close> decodes to a list, the dispatch raises
  (a list has no \<^verbatim>\<open>get\<close>), \<^verbatim>\<open>handle_notification_message\<close> logs the error and
  returns, and the message is completed, not abandoned.
\<close>

theorem dispatch_error_is_completed:
  "json_loads array_env ''[]'' = Inr (JArr [])
   \<and> fst (dispatch empty_world (JArr [])) = Some ''list object has no attribute get''
   \<and> new_calls empty_world (snd (process_message array_env empty_world ''[]''))
        = [CompleteMessage ''[]'']
   \<and> logs (snd (process_message array_env empty_world ''[]''))
        = [Error ''Error handling notification message: list object has no attribute get'']"
  by (simp add: new_calls_def process_message_def array_env_def quiet_env_def
      handle_notification_message_def dispatch_def empty_world_def log_error_def)

lemma handle_notification_message_never_raises:
  "fst (handle_notification_message w message_data) = None"
  by (simp add: handle_notification_message_def split: prod.splits option.splits)

lemma decoded_message_is_completed:
  assumes "json_loads env msg = Inr message_data" and "complete_error env msg = None"
  shows "new_calls w (snd (process_message env w msg)) = [CompleteMessage msg]"
proof -
  obtain w' where h: "handle_notification_message w message_data = (None, w')"
    using handle_notification_message_never_raises [of w message_data]
    by (cases "handle_notification_message w message_data") auto
  have "calls w' = calls w"
    using h by (auto simp: handle_notification_message_def dispatch_def log_info_def log_error_def
        process_urgent_health_alert_def process_daily_reminder_def process_analysis_request_def
        split: prod.splits option.splits sum.splits if_splits)
  with assms h show ?thesis
    by (simp add: process_message_def new_calls_def)
qed

subsection \<open>The retention windows of the cleanup\<close>

lemma delete_item_containers:
  assumes "delete_item env name w x = (r, w')"
  shows "container_of name w' =
           (if r = None then delete_by item_key (item_key x) (container_of name w)
            else container_of name w)"
    and "name = ''FoodHistory'' \<Longrightarrow> medical_container w' = medical_container w"
    and "name \<noteq> ''FoodHistory'' \<Longrightarrow> food_container w' = food_container w"
    and "r = delete_error env name (item_id x) (userId x)"
  using assms
  by (auto simp: delete_item_def Let_def set_container_def container_of_def split: option.splits)

lemma for_each_delete_item_containers:
  "for_each (delete_item env name) xs w = (r, w') \<Longrightarrow>
     \<exists>ds. set ds \<subseteq> set xs \<and> (r = None \<longrightarrow> ds = xs)
       \<and> container_of name w' =
           filter (\<lambda>y. item_key y \<notin> item_key ` set ds) (container_of name w)
       \<and> (name = ''FoodHistory'' \<longrightarrow> medical_container w' = medical_container w)
       \<and> (name \<noteq> ''FoodHistory'' \<longrightarrow> food_container w' = food_container w)
       \<and> ((\<forall>x \<in> set xs. delete_error env name (item_id x) (userId x) = None) \<longrightarrow> r = None)"
proof (induction xs arbitrary: w)
  case Nil
  then show ?case by (intro exI [of _ "[]"]) simp
next
  case (Cons x xs)
  obtain r1 w1 where d: "delete_item env name w x = (r1, w1)"
    by (cases "delete_item env name w x")
  note e = delete_item_containers [OF d]
  show ?case
  proof (cases r1)
    case (Some err)
    with Cons.prems d have rw: "r = Some err" "w' = w1" by simp_all
    have de: "delete_error env name (item_id x) (userId x) = Some err"
      using e(4) Some by simp
    have "container_of name w1 = container_of name w"
      using e(1) Some by simp
    with rw e(2,3) de show ?thesis
      by (intro exI [of _ "[]"]) auto
  next
    case None
    with Cons.prems d have f: "for_each (delete_item env name) xs w1 = (r, w')" by simp
    from Cons.IH [OF f] obtain ds where ds:
      "set ds \<subseteq> set xs" "r = None \<longrightarrow> ds = xs"
      "container_of name w' = filter (\<lambda>y. item_key y \<notin> item_key ` set ds) (container_of name w1)"
      "name = ''FoodHistory'' \<longrightarrow> medical_container w' = medical_container w1"
      "name \<noteq> ''FoodHistory'' \<longrightarrow> food_container w' = food_container w1"
      "(\<forall>x \<in> set xs. delete_error env name (item_id x) (userId x) = None) \<longrightarrow> r = None"
      by blast
    have "container_of name w' =
            filter (\<lambda>y. item_key y \<notin> item_key ` set (x # ds)) (container_of name w)"
      using ds(3) e(1) None by (auto simp: delete_by_def intro: filter_cong)
    with ds e None show ?thesis
      by (intro exI [of _ "x # ds"]) auto
  qed
qed

lemma distinct_keys_filter:
  assumes "distinct (map key c)" and "set ds \<subseteq> set (filter old c)"
  shows "\<forall>x \<in> set c. \<not> old x \<longrightarrow> x \<in> set (filter (\<lambda>y. key y \<notin> key ` set ds) c)"
proof (intro ballI impI)
  fix x assume x: "x \<in> set c" "\<not> old x"
  have "key x \<notin> key ` set ds"
  proof
    assume "key x \<in> key ` set ds"
    then obtain d where d: "d \<in> set ds" "key d = key x" by auto
    with assms(2) have "d \<in> set c" "old d" by auto
    with assms(1) x(1) d(2) have "d = x"
      by (meson distinct_map inj_onD)
    with \<open>old d\<close> x(2) show False by simp
  qed
  with x(1) show "x \<in> set (filter (\<lambda>y. key y \<notin> key ` set ds) c)" by simp
qed

lemma distinct_keys_filter_all:
  assumes "distinct (map key c)"
  shows "filter (\<lambda>y. key y \<notin> key ` set (filter old c)) c = filter (\<lambda>y. \<not> old y) c"
proof (rule filter_cong [OF refl])
  fix x assume x: "x \<in> set c"
  show "(key x \<notin> key ` set (filter old c)) = (\<not> old x)"
  proof
    assume "key x \<notin> key ` set (filter old c)"
    with x show "\<not> old x" by auto
  next
    assume n: "\<not> old x"
    show "key x \<notin> key ` set (filter old c)"
    proof
      assume "key x \<in> key ` set (filter old c)"
      then obtain d where d: "d \<in> set c" "old d" "key d = key x" by auto
      with assms x have "d = x" by (meson distinct_map inj_onD)
      with d n show False by simp
    qed
  qed
qed

lemma for_each_preserves:
  assumes step: "\<And>w x r w'. f w x = (r, w') \<Longrightarrow> P w \<Longrightarrow> P w'"
  shows "for_each f xs w = (r, w') \<Longrightarrow> P w \<Longrightarrow> P w'"
proof (induction xs arbitrary: w)
  case Nil
  then show ?case by simp
next
  case (Cons x xs)
  obtain r1 w1 where d: "f w x = (r1, w1)" by (cases "f w x")
  from step [OF d Cons.prems(2)] have p: "P w1" .
  show ?case
  proof (cases r1)
    case (Some e)
    with Cons.prems d p show ?thesis by simp
  next
    case None
    with Cons.prems d have "for_each f xs w1 = (r, w')" by simp
    from Cons.IH [OF this p] show ?thesis .
  qed
qed

lemma delete_blob_items:
  "delete_blob env container_name w name = (r, w') \<Longrightarrow>
     food_container w = fc \<and> medical_container w = mc \<Longrightarrow>
     food_container w' = fc \<and> medical_container w' = mc"
  by (auto simp: delete_blob_def Let_def set_blobs_def split: option.splits)

lemma sweep_container_items:
  assumes "sweep_container env cutoff w container_name = (r, w')"
    and "food_container w = fc \<and> medical_container w = mc"
  shows "food_container w' = fc \<and> medical_container w' = mc"
proof (cases "list_blobs_error env container_name")
  case (Some e)
  with assms show ?thesis by (simp add: sweep_container_def)
next
  case None
  let ?names = "map blob_name (filter (\<lambda>b. last_modified b < cutoff) (blobs_of container_name w))"
  obtain r1 w1 where f: "for_each (delete_blob env container_name) ?names w = (r1, w1)"
    by (cases "for_each (delete_blob env container_name) ?names w")
  have "food_container w1 = fc \<and> medical_container w1 = mc"
    using for_each_preserves [of "delete_blob env container_name"
        "\<lambda>w. food_container w = fc \<and> medical_container w = mc", OF delete_blob_items f assms(2)]
    by simp
  with assms(1) None f show ?thesis
    by (cases r1) (auto simp: sweep_container_def Let_def log_info_def)
qed

lemma cleanup_old_blobs_items:
  "food_container (cleanup_old_blobs env cutoff w) = food_container w
   \<and> medical_container (cleanup_old_blobs env cutoff w) = medical_container w"
proof -
  obtain r w' where f: "for_each (sweep_container env cutoff)
      [''food-images'', ''medical-documents''] w = (r, w')"
    by (cases "for_each (sweep_container env cutoff) [''food-images'', ''medical-documents''] w")
  have "food_container w' = food_container w \<and> medical_container w' = medical_container w"
    using for_each_preserves [of "sweep_container env cutoff"
        "\<lambda>v. food_container v = food_container w \<and> medical_container v = medical_container w",
        OF sweep_container_items f]
    by simp
  with f show ?thesis
    by (cases r) (simp_all add: cleanup_old_blobs_def log_error_def)
qed

lemma cleanup_items_containers:
  assumes "cleanup_items env w = (r, w')"
  shows "\<exists>df dm.
       set df \<subseteq> set (query_old_food (utcnow env - days 730) (food_container w))
     \<and> set dm \<subseteq> set (query_old_medical (utcnow env - days 1095) (medical_container w))
     \<and> food_container w' = filter (\<lambda>y. item_key y \<notin> item_key ` set df) (food_container w)
     \<and> medical_container w' = filter (\<lambda>y. item_key y \<notin> item_key ` set dm) (medical_container w)
     \<and> (query_error env ''FoodHistory'' = None \<and> query_error env ''MedicalRecords'' = None
          \<and> (\<forall>name i pk. delete_error env name i pk = None)
        \<longrightarrow> df = query_old_food (utcnow env - days 730) (food_container w)
          \<and> dm = query_old_medical (utcnow env - days 1095) (medical_container w))"
proof (cases "query_error env ''FoodHistory''")
  case (Some e)
  with assms have "w' = w" by (simp add: cleanup_items_def)
  then show ?thesis using Some
    by (intro exI [of _ "[]"]) simp
next
  case None
  let ?pf = "query_old_food (utcnow env - days 730) (food_container w)"
  let ?pm = "query_old_medical (utcnow env - days 1095) (medical_container w)"
  obtain r1 w1 where f: "for_each (delete_item env ''FoodHistory'') ?pf w = (r1, w1)"
    by (cases "for_each (delete_item env ''FoodHistory'') ?pf w")
  from for_each_delete_item_containers [OF f] obtain df where df:
    "set df \<subseteq> set ?pf" "r1 = None \<longrightarrow> df = ?pf"
    "food_container w1 = filter (\<lambda>y. item_key y \<notin> item_key ` set df) (food_container w)"
    "medical_container w1 = medical_container w"
    "(\<forall>x \<in> set ?pf. delete_error env ''FoodHistory'' (item_id x) (userId x) = None) \<longrightarrow> r1 = None"
    by (auto simp: container_of_def)
  show ?thesis
  proof (cases "r1 = None \<and> query_error env ''MedicalRecords'' = None")
    case False
    with assms None f have "w' = w1"
      by (cases r1; cases "query_error env ''MedicalRecords''") (auto simp: cleanup_items_def)
    with df False show ?thesis
      by (intro exI [of _ df] exI [of _ "[]"]) auto
  next
    case True
    with assms None f df(4) have g: "for_each (delete_item env ''MedicalRecords'') ?pm w1 = (r, w')"
      by (simp add: cleanup_items_def)
    from for_each_delete_item_containers [OF g] df(4) obtain dm where dm:
      "set dm \<subseteq> set ?pm" "r = None \<longrightarrow> dm = ?pm"
      "medical_container w' = filter (\<lambda>y. item_key y \<notin> item_key ` set dm) (medical_container w)"
      "food_container w' = food_container w1"
      "(\<forall>x \<in> set ?pm. delete_error env ''MedicalRecords'' (item_id x) (userId x) = None) \<longrightarrow> r = None"
      by (auto simp: container_of_def)
    with df True show ?thesis
      by (intro exI [of _ df] exI [of _ dm]) auto
  qed
qed

lemma cleanup_run_containers:
  "\<exists>df dm.
       set df \<subseteq> set (query_old_food (utcnow env - days 730) (food_container w))
     \<and> set dm \<subseteq> set (query_old_medical (utcnow env - days 1095) (medical_container w))
     \<and> food_container (cleanup_run env w)
         = filter (\<lambda>y. item_key y \<notin> item_key ` set df) (food_container w)
     \<and> medical_container (cleanup_run env w)
         = filter (\<lambda>y. item_key y \<notin> item_key ` set dm) (medical_container w)
     \<and> (query_error env ''FoodHistory'' = None \<and> query_error env ''MedicalRecords'' = None
          \<and> (\<forall>name i pk. delete_error env name i pk = None)
        \<longrightarrow> df = query_old_food (utcnow env - days 730) (food_container w)
          \<and> dm = query_old_medical (utcnow env - days 1095) (medical_container w))"
proof -
  let ?w0 = "log_info ''Starting monthly data cleanup'' w"
  obtain r w2 where i: "cleanup_items env ?w0 = (r, w2)"
    by (cases "cleanup_items env ?w0")
  have w0: "food_container ?w0 = food_container w" "medical_container ?w0 = medical_container w"
    by (simp_all add: log_info_def)
  have "food_container (cleanup_run env w) = food_container w2
        \<and> medical_container (cleanup_run env w) = medical_container w2"
    using i cleanup_old_blobs_items [of env "utcnow env - days 730" w2]
    by (cases r) (simp_all add: cleanup_run_def cleanup_job_items log_info_def log_error_def)
  with cleanup_items_containers [OF i] w0 show ?thesis by simp
qed

text \<open>
  C6. In a store with one document per key, a cleanup run keeps every food item whose
  timestamp is not before now - 730 days and every medical item that is critical or
  whose timestamp is not before now - 1095 days, whatever the collaborators do. When no
  query and no deletion raises, it deletes everything else: exactly the food items older
  than 730 days and the medical items older than 1095 days that are not critical.
\<close>

theorem cleanup_retention_windows:
  assumes "distinct (map item_key (food_container w))"
    and "distinct (map item_key (medical_container w))"
  shows "(\<forall>x \<in> set (food_container w). utcnow env - days 730 \<le> timestamp x \<longrightarrow>
            x \<in> set (food_container (cleanup_run env w)))
    \<and> (\<forall>x \<in> set (medical_container w).
            utcnow env - days 1095 \<le> timestamp x \<or> item_type x = ''critical'' \<longrightarrow>
            x \<in> set (medical_container (cleanup_run env w)))
    \<and> (query_error env ''FoodHistory'' = None \<and> query_error env ''MedicalRecords'' = None
          \<and> (\<forall>name i pk. delete_error env name i pk = None) \<longrightarrow>
        food_container (cleanup_run env w)
          = filter (\<lambda>x. utcnow env - days 730 \<le> timestamp x) (food_container w)
        \<and> medical_container (cleanup_run env w)
          = filter (\<lambda>x. utcnow env - days 1095 \<le> timestamp x \<or> item_type x = ''critical'')
              (medical_container w))"
proof -
  let ?oldf = "\<lambda>x. timestamp x < utcnow env - days 730"
  let ?oldm = "\<lambda>x. timestamp x < utcnow env - days 1095 \<and> item_type x \<noteq> ''critical''"
  obtain df dm where d:
    "set df \<subseteq> set (filter ?oldf (food_container w))"
    "set dm \<subseteq> set (filter ?oldm (medical_container w))"
    "food_container (cleanup_run env w)
         = filter (\<lambda>y. item_key y \<notin> item_key ` set df) (food_container w)"
    "medical_container (cleanup_run env w)
         = filter (\<lambda>y. item_key y \<notin> item_key ` set dm) (medical_container w)"
    "query_error env ''FoodHistory'' = None \<and> query_error env ''MedicalRecords'' = None
          \<and> (\<forall>name i pk. delete_error env name i pk = None)
        \<longrightarrow> df = filter ?oldf (food_container w) \<and> dm = filter ?oldm (medical_container w)"
    using cleanup_run_containers [of env w]
    unfolding query_old_food_def query_old_medical_def by blast
  have f: "\<forall>x \<in> set (food_container w). utcnow env - days 730 \<le> timestamp x \<longrightarrow>
            x \<in> set (food_container (cleanup_run env w))"
    using distinct_keys_filter [OF assms(1) d(1)] d(3) by (auto simp: not_less)
  have m: "\<forall>x \<in> set (medical_container w).
            utcnow env - days 1095 \<le> timestamp x \<or> item_type x = ''critical'' \<longrightarrow>
            x \<in> set (medical_container (cleanup_run env w))"
    using distinct_keys_filter [OF assms(2) d(2)] d(4) by (auto simp: not_less)
  have a: "food_container (cleanup_run env w)
          = filter (\<lambda>x. utcnow env - days 730 \<le> timestamp x) (food_container w)
        \<and> medical_container (cleanup_run env w)
          = filter (\<lambda>x. utcnow env - days 1095 \<le> timestamp x \<or> item_type x = ''critical'')
              (medical_container w)"
    if "query_error env ''FoodHistory'' = None \<and> query_error env ''MedicalRecords'' = None
          \<and> (\<forall>name i pk. delete_error env name i pk = None)"
  proof -
    from d(5) that have e: "df = filter ?oldf (food_container w)" "dm = filter ?oldm (medical_container w)"
      by simp_all
    have "filter (\<lambda>y. \<not> ?oldf y) (food_container w)
            = filter (\<lambda>x. utcnow env - days 730 \<le> timestamp x) (food_container w)"
      by (rule filter_cong) auto
    moreover have "filter (\<lambda>y. \<not> ?oldm y) (medical_container w)
            = filter (\<lambda>x. utcnow env - days 1095 \<le> timestamp x \<or> item_type x = ''critical'')
                (medical_container w)"
      by (rule filter_cong) auto
    ultimately show ?thesis
      using d(3,4) e distinct_keys_filter_all [OF assms(1), of ?oldf]
        distinct_keys_filter_all [OF assms(2), of ?oldm]
      by simp
  qed
  from f m a show ?thesis by blast
qed

lemma retention_world_distinct:
  "distinct (map item_key (food_container retention_world))"
  "distinct (map item_key (medical_container retention_world))"
  by (simp_all add: retention_world_def empty_world_def old_item_def item_key_def)

lemma quiet_env_no_errors:
  "query_error quiet_env ''FoodHistory'' = None \<and> query_error quiet_env ''MedicalRecords'' = None
     \<and> (\<forall>name i pk. delete_error quiet_env name i pk = None)"
  by (simp add: quiet_env_def)

theorem cleanup_retention_windows_witness:
  "map item_id (food_container (cleanup_run quiet_env retention_world)) = [''f730'', ''f729'']
   \<and> map item_id (medical_container (cleanup_run quiet_env retention_world)) = [''m2000'', ''m800'']"
  using cleanup_retention_windows [OF retention_world_distinct, of quiet_env] quiet_env_no_errors
  by (simp add: retention_world_def empty_world_def old_item_def days_def day_len_def second_def
      quiet_env_def)

subsection \<open>The minimum of five food items for a trend analysis\<close>

lemma trend_record_object:
  "trend_record env user_id n (JObj d) =
     Inr \<lparr>insight_id = user_id @ ''-trends-'' @ date_isoformat env (date_of (utcnow env)),
          insight_userId = user_id,
          insight_type = ''health_trends'',
          content = [(''nutritionalPatterns'', dict_get d ''nutritional_patterns'' (JObj [])),
                     (''healthMetricsTrend'', dict_get d ''health_metrics_trend'' (JObj [])),
                     (''behavioralPatterns'', dict_get d ''behavioral_patterns'' (JObj [])),
                     (''riskTrends'', dict_get d ''risk_trends'' (JObj [])),
                     (''healthTrajectory'', dict_get d ''health_trajectory'' (JObj [])),
                     (''interventions'', dict_get d ''interventions'' (JArr []))],
          generatedAt = utcnow env,
          range_start = utcnow env - days 90,
          range_end = utcnow env,
          dataPoints = Some n\<rparr>"
  by (simp add: trend_record_def)

lemma recommendations_upsert_calls:
  "calls (snd (recommendations_upsert env r w)) = calls w @ [UpsertInsight r]"
  by (simp add: recommendations_upsert_def Let_def split: option.splits)

lemma trends_below_minimum:
  assumes "length (query_user_since user_id (utcnow env - days 90) (food_container w)) < 5"
  shows "new_calls w (snd (analyze_user_health_trends env w user_id)) = []"
    and "recommendations_container (snd (analyze_user_health_trends env w user_id))
           = recommendations_container w"
    and "query_error env ''FoodHistory'' = None \<Longrightarrow> query_error env ''MedicalRecords'' = None \<Longrightarrow>
           analyze_user_health_trends env w user_id = (None, w)"
  using assms
  by (auto simp: analyze_user_health_trends_def health_trends_body_def Let_def new_calls_def
      log_error_def split: option.splits)

lemma trends_at_most_one_call:
  "length (new_calls w (snd (analyze_user_health_trends env w user_id))) \<le> 1"
  by (auto simp: analyze_user_health_trends_def health_trends_body_def Let_def new_calls_def
      log_error_def log_info_def recommendations_upsert_def
      split: option.splits sum.splits prod.splits)

lemma trends_at_minimum:
  assumes "query_error env ''FoodHistory'' = None" and "query_error env ''MedicalRecords'' = None"
    and "food_history = query_user_since user_id (utcnow env - days 90) (food_container w)"
    and "medical_history = query_user_since user_id (utcnow env - days 90) (medical_container w)"
    and "5 \<le> length food_history"
    and "chat_completion env
           ''You are an expert health trend analyst providing longitudinal health assessments.''
           (trend_prompt env food_history medical_history) = Inr response"
    and "json_loads env response = Inr trend_analysis"
    and "trend_record env user_id (length food_history + length medical_history) trend_analysis = Inr r"
    and "upsert_insight_error env r = None"
  shows "new_calls w (snd (analyze_user_health_trends env w user_id)) = [UpsertInsight r]"
    and "recommendations_container (snd (analyze_user_health_trends env w user_id))
           = upsert_by insight_key r (recommendations_container w)"
  using assms
  by (auto simp: analyze_user_health_trends_def health_trends_body_def Let_def new_calls_def
      log_info_def recommendations_upsert_def)

lemma trend_record_kind:
  "trend_record env user_id n trend_analysis = Inr r \<Longrightarrow>
     insight_type r = ''health_trends'' \<and> insight_userId r = user_id \<and> dataPoints r = Some n"
  by (cases trend_analysis) (auto simp: trend_record_def)

lemma trends_chat_raises:
  assumes "query_error env ''FoodHistory'' = None" and "query_error env ''MedicalRecords'' = None"
    and "5 \<le> length (query_user_since user_id (utcnow env - days 90) (food_container w))"
    and "chat_completion env
           ''You are an expert health trend analyst providing longitudinal health assessments.''
           (trend_prompt env
              (query_user_since user_id (utcnow env - days 90) (food_container w))
              (query_user_since user_id (utcnow env - days 90) (medical_container w))) = Inl e"
  shows "analyze_user_health_trends env w user_id
           = (None, log_error (''Error analyzing health trends for user '' @ user_id @ '': '' @ e) w)"
  using assms
  by (simp add: analyze_user_health_trends_def health_trends_body_def Let_def)

text \<open>
  C7 (as amended). \<^verbatim>\<open>analyze_user_health_trends\<close> for a user with fewer than 5 food
  items in the 90-day window makes no upsert and leaves the Recommendations container as
  it was; when the two queries did not raise it leaves the whole state as it was, the log
  too. For any user it makes at most one upsert. For a user with at least 5 such items,
  when the queries, the chat call, the parsing of its answer and the upsert do not raise,
  it makes exactly one upsert, of that user's \<^verbatim>\<open>health_trends\<close> record; when the chat
  call raises, it logs the error and changes nothing else.
\<close>

theorem trend_minimum_of_five:
  "(length (query_user_since user_id (utcnow env - days 90) (food_container w)) < 5 \<longrightarrow>
      new_calls w (snd (analyze_user_health_trends env w user_id)) = []
      \<and> recommendations_container (snd (analyze_user_health_trends env w user_id))
          = recommendations_container w
      \<and> (query_error env ''FoodHistory'' = None \<longrightarrow> query_error env ''MedicalRecords'' = None \<longrightarrow>
           analyze_user_health_trends env w user_id = (None, w)))
   \<and> length (new_calls w (snd (analyze_user_health_trends env w user_id))) \<le> 1
   \<and> (5 \<le> length (query_user_since user_id (utcnow env - days 90) (food_container w)) \<longrightarrow>
      query_error env ''FoodHistory'' = None \<longrightarrow> query_error env ''MedicalRecords'' = None \<longrightarrow>
      chat_completion env
        ''You are an expert health trend analyst providing longitudinal health assessments.''
        (trend_prompt env
           (query_user_since user_id (utcnow env - days 90) (food_container w))
           (query_user_since user_id (utcnow env - days 90) (medical_container w))) = Inr response \<longrightarrow>
      json_loads env response = Inr trend_analysis \<longrightarrow>
      trend_record env user_id
        (length (query_user_since user_id (utcnow env - days 90) (food_container w))
         + length (query_user_since user_id (utcnow env - days 90) (medical_container w)))
        trend_analysis = Inr r \<longrightarrow>
      upsert_insight_error env r = None \<longrightarrow>
        new_calls w (snd (analyze_user_health_trends env w user_id)) = [UpsertInsight r]
        \<and> recommendations_container (snd (analyze_user_health_trends env w user_id))
            = upsert_by insight_key r (recommendations_container w)
        \<and> insight_type r = ''health_trends'' \<and> insight_userId r = user_id)
   \<and> (5 \<le> length (query_user_since user_id (utcnow env - days 90) (food_container w)) \<longrightarrow>
      query_error env ''FoodHistory'' = None \<longrightarrow> query_error env ''MedicalRecords'' = None \<longrightarrow>
      chat_completion env
        ''You are an expert health trend analyst providing longitudinal health assessments.''
        (trend_prompt env
           (query_user_since user_id (utcnow env - days 90) (food_container w))
           (query_user_since user_id (utcnow env - days 90) (medical_container w))) = Inl e \<longrightarrow>
        analyze_user_health_trends env w user_id
          = (None, log_error (''Error analyzing health trends for user '' @ user_id @ '': '' @ e) w))"
proof (intro conjI impI)
  assume "length (query_user_since user_id (utcnow env - days 90) (food_container w)) < 5"
  note b = trends_below_minimum [OF this]
  show "new_calls w (snd (analyze_user_health_trends env w user_id)) = []"
    by (rule b(1))
  show "recommendations_container (snd (analyze_user_health_trends env w user_id))
          = recommendations_container w"
    by (rule b(2))
  show "analyze_user_health_trends env w user_id = (None, w)"
    if "query_error env ''FoodHistory'' = None" "query_error env ''MedicalRecords'' = None"
    using that by (rule b(3))
next
  show "length (new_calls w (snd (analyze_user_health_trends env w user_id))) \<le> 1"
    by (rule trends_at_most_one_call)
next
  assume h: "5 \<le> length (query_user_since user_id (utcnow env - days 90) (food_container w))"
    "query_error env ''FoodHistory'' = None" "query_error env ''MedicalRecords'' = None"
    "chat_completion env
        ''You are an expert health trend analyst providing longitudinal health assessments.''
        (trend_prompt env
           (query_user_since user_id (utcnow env - days 90) (food_container w))
           (query_user_since user_id (utcnow env - days 90) (medical_container w))) = Inr response"
    "json_loads env response = Inr trend_analysis"
    "trend_record env user_id
        (length (query_user_since user_id (utcnow env - days 90) (food_container w))
         + length (query_user_since user_id (utcnow env - days 90) (medical_container w)))
        trend_analysis = Inr r"
    "upsert_insight_error env r = None"
  note m = trends_at_minimum [OF h(2,3) refl refl h(1,4,5,6,7)]
  show "new_calls w (snd (analyze_user_health_trends env w user_id)) = [UpsertInsight r]"
    by (rule m(1))
  show "recommendations_container (snd (analyze_user_health_trends env w user_id))
            = upsert_by insight_key r (recommendations_container w)"
    by (rule m(2))
  show "insight_type r = ''health_trends''" "insight_userId r = user_id"
    using trend_record_kind [OF h(6)] by simp_all
next
  assume h: "5 \<le> length (query_user_since user_id (utcnow env - days 90) (food_container w))"
    "query_error env ''FoodHistory'' = None" "query_error env ''MedicalRecords'' = None"
    "chat_completion env
        ''You are an expert health trend analyst providing longitudinal health assessments.''
        (trend_prompt env
           (query_user_since user_id (utcnow env - days 90) (food_container w))
           (query_user_since user_id (utcnow env - days 90) (medical_container w))) = Inl e"
  show "analyze_user_health_trends env w user_id
          = (None, log_error (''Error analyzing health trends for user '' @ user_id @ '': '' @ e) w)"
    by (rule trends_chat_raises [OF h(2,3,1,4)])
qed

lemma trend_world_histories:
  "length (query_user_since ''u1'' (utcnow quiet_env - days 90) (food_container trend_world)) = 5"
  "length (query_user_since ''u2'' (utcnow quiet_env - days 90) (food_container trend_world)) = 3"
  "query_user_since ''u1'' (utcnow quiet_env - days 90) (medical_container trend_world) = []"
  by (simp_all add: query_user_since_def trend_world_def empty_world_def old_item_def
      quiet_env_def days_def day_len_def second_def)

lemma quiet_env_answers:
  "query_error quiet_env name = None"
  "chat_completion quiet_env system_prompt prompt = Inr ''{}''"
  "json_loads quiet_env s = Inr (JObj [])"
  "upsert_insight_error quiet_env r = None"
  "date_isoformat quiet_env d = ''2023-11-14''"
  by (simp_all add: quiet_env_def)

theorem trend_minimum_of_five_witness:
  "analyze_user_health_trends quiet_env trend_world ''u2'' = (None, trend_world)
   \<and> new_calls trend_world (snd (analyze_user_health_trends quiet_env trend_world ''u1''))
       = [UpsertInsight
           \<lparr>insight_id = ''u1-trends-2023-11-14'', insight_userId = ''u1'',
            insight_type = ''health_trends'',
            content = [(''nutritionalPatterns'', JObj []), (''healthMetricsTrend'', JObj []),
                       (''behavioralPatterns'', JObj []), (''riskTrends'', JObj []),
                       (''healthTrajectory'', JObj []), (''interventions'', JArr [])],
            generatedAt = utcnow quiet_env, range_start = utcnow quiet_env - days 90,
            range_end = utcnow quiet_env, dataPoints = Some 5\<rparr>]"
proof -
  let ?r = "\<lparr>insight_id = ''u1-trends-2023-11-14'', insight_userId = ''u1'',
            insight_type = ''health_trends'',
            content = [(''nutritionalPatterns'', JObj []), (''healthMetricsTrend'', JObj []),
                       (''behavioralPatterns'', JObj []), (''riskTrends'', JObj []),
                       (''healthTrajectory'', JObj []), (''interventions'', JArr [])],
            generatedAt = utcnow quiet_env, range_start = utcnow quiet_env - days 90,
            range_end = utcnow quiet_env, dataPoints = Some 5\<rparr>"
  have r: "trend_record quiet_env ''u1'' 5 (JObj []) = Inr ?r"
    by (simp add: trend_record_object quiet_env_answers dict_get_def)
  from trend_minimum_of_five [of "''u2''" quiet_env trend_world]
  have 1: "analyze_user_health_trends quiet_env trend_world ''u2'' = (None, trend_world)"
    by (simp add: trend_world_histories quiet_env_answers)
  from trend_minimum_of_five [of "''u1''" quiet_env trend_world "''{}''" "JObj []" ?r] r
  have 2: "new_calls trend_world (snd (analyze_user_health_trends quiet_env trend_world ''u1''))
       = [UpsertInsight ?r]"
    by (simp add: trend_world_histories quiet_env_answers)
  from 1 2 show ?thesis by simp
qed

lemma chat_fail_history:
  "length (query_user_since ''u1'' (utcnow chat_fail_env - days 90) (food_container trend_world)) = 5"
  by (simp add: query_user_since_def trend_world_def empty_world_def old_item_def
      chat_fail_env_def quiet_env_def days_def day_len_def second_def)

lemma chat_fail_env_facts:
  "query_error chat_fail_env name = None"
  "chat_completion chat_fail_env system_prompt prompt = Inl ''Request timed out.''"
  by (simp_all add: chat_fail_env_def quiet_env_def)

lemma chat_fail_run:
  "analyze_user_health_trends chat_fail_env trend_world ''u1''
     = (None, log_error ''Error analyzing health trends for user u1: Request timed out.'' trend_world)"
  using trends_chat_raises [of chat_fail_env "''u1''" trend_world "''Request timed out.''"]
    chat_fail_history
  by (simp add: chat_fail_env_facts)

lemma trend_world_empty_parts:
  "calls trend_world = []" "logs trend_world = []" "recommendations_container trend_world = []"
  by (simp_all add: trend_world_def empty_world_def)

text \<open>
  C7 (as stated) fails: user u1 has five food items in the 90-day window and the chat
  service raises; no trend record is upserted, the error is logged.
\<close>

theorem trend_record_counterexample:
  "5 \<le> length (query_user_since ''u1'' (utcnow chat_fail_env - days 90) (food_container trend_world))
   \<and> new_calls trend_world (snd (analyze_user_health_trends chat_fail_env trend_world ''u1'')) = []
   \<and> recommendations_container (snd (analyze_user_health_trends chat_fail_env trend_world ''u1'')) = []
   \<and> logs (snd (analyze_user_health_trends chat_fail_env trend_world ''u1''))
       = [Error ''Error analyzing health trends for user u1: Request timed out.'']"
  by (simp add: chat_fail_history chat_fail_run new_calls_def log_error_def
      trend_world_empty_parts)

subsection \<open>One daily insight record per user and day\<close>
















subsection \<open>How often the periodic jobs run\<close>

lemma lens_pos: "0 < minute_len" "0 < hour_len" "0 < day_len"
  by (simp_all add: minute_len_def hour_len_def day_len_def second_def)

lemma hour_of_minutes: "hour_len = minute_len * 60" and day_of_hours: "day_len = hour_len * 24"
  by (simp_all add: minute_len_def hour_len_def day_len_def)

lemma div_hour: "t div hour_len = (t div minute_len) div 60"
  unfolding hour_of_minutes by (rule zdiv_zmult2_eq) simp

lemma div_day: "t div day_len = (t div hour_len) div 24"
  unfolding day_of_hours by (rule zdiv_zmult2_eq) simp

lemma hour_index: "t div hour_len = date_of t * 24 + hour_of t"
  by (simp add: date_of_def hour_of_def div_day)

lemma minute_index: "t div minute_len = (date_of t * 24 + hour_of t) * 60 + minute_of t"
proof -
  have "t div minute_len = (t div hour_len) * 60 + minute_of t"
    by (simp add: minute_of_def div_hour)
  then show ?thesis by (simp add: hour_index)
qed

lemma div_step:
  assumes "0 < (p::int)" and "a + p \<le> b"
  shows "a div p < b div p"
proof -
  have "p \<noteq> 0" using assms(1) by simp
  then have "(a + p) div p = a div p + 1"
    by (rule div_add_self2)
  moreover have "(a + p) div p \<le> b div p"
    using assms by (intro zdiv_mono1) simp_all
  ultimately show ?thesis by simp
qed

lemma daily_due_apart:
  assumes "daily_due a" and "daily_due b" and "a + minute_len \<le> b"
  shows "date_of a \<noteq> date_of b"
proof
  assume "date_of a = date_of b"
  with assms(1,2) have "a div minute_len = b div minute_len"
    by (simp add: minute_index daily_due_def)
  with div_step [OF lens_pos(1) assms(3)] show False by simp
qed

lemma same_hour_apart:
  assumes "date_of a = date_of b" and "hour_of a = hour_of b" and "a + hour_len \<le> b"
  shows False
proof -
  from assms(1,2) have "a div hour_len = b div hour_len"
    by (simp add: hour_index)
  with div_step [OF lens_pos(2) assms(3)] show False by simp
qed

lemma weekly_due_apart:
  assumes "weekly_due a" and "weekly_due b" and "a + hour_len \<le> b"
  shows "week_of a \<noteq> week_of b"
proof
  assume w: "week_of a = week_of b"
  have "(date_of a + 3) div 7 = (date_of b + 3) div 7"
    and "(date_of a + 3) mod 7 = (date_of b + 3) mod 7"
    using w assms(1,2) by (simp_all add: week_of_def weekly_due_def weekday_def)
  then have "date_of a + 3 = date_of b + 3"
    by (metis div_mult_mod_eq)
  then have "date_of a = date_of b" by simp
  with assms show False
    by (auto simp: weekly_due_def dest: same_hour_apart)
qed

lemma monthly_due_apart:
  assumes "monthly_due mday a" and "monthly_due mday b" and "a + hour_len \<le> b"
  shows "date_of a \<noteq> date_of b"
  using assms by (auto simp: monthly_due_def dest: same_hour_apart)

lemma poll_times_later:
  "0 \<le> period \<Longrightarrow> y \<in> set (poll_times period t ds) \<Longrightarrow> t \<le> y"
proof (induction ds arbitrary: t)
  case Nil
  then show ?case by simp
next
  case (Cons d ds)
  from Cons.prems(2) consider "y = t" | "y \<in> set (poll_times period (t + int d + period) ds)"
    by auto
  then show ?case
  proof cases
    case 1
    then show ?thesis by simp
  next
    case 2
    from Cons.IH [OF Cons.prems(1) 2] Cons.prems(1) show ?thesis by simp
  qed
qed

lemma fires_distinct:
  assumes p: "0 \<le> period"
    and apart: "\<And>a b. due a \<Longrightarrow> due b \<Longrightarrow> a + period \<le> b \<Longrightarrow> f a \<noteq> f b"
  shows "distinct (map f (filter due (poll_times period t ds)))"
proof (induction ds arbitrary: t)
  case Nil
  show ?case by simp
next
  case (Cons d ds)
  let ?rest = "poll_times period (t + int d + period) ds"
  have "f t \<notin> f ` set (filter due ?rest)" if "due t"
  proof
    assume "f t \<in> f ` set (filter due ?rest)"
    then obtain y where y: "y \<in> set ?rest" "due y" "f t = f y" by auto
    from poll_times_later [OF p y(1)] have "t + period \<le> y" by simp
    from apart [OF that y(2) this] y(3) show False by simp
  qed
  with Cons.IH [of "t + int d + period"] show ?case by auto
qed

text \<open>
  C1 (as amended). Within one run of a polling loop two consecutive readings of the clock
  are at least one sleep apart, and the sleep (60 s for the daily job, 3600 s for the
  weekly and monthly jobs) is as long as the window in which the trigger predicate holds.
  So the daily job does not run twice on one calendar date, the weekly job runs only on
  Sundays and not twice in one week, and the monthly job runs only on a first of the
  month and not twice on one date. No state records that a job ran.
\<close>

theorem periodic_jobs_fire_once:
  "distinct (map date_of (daily_fires t ds))
   \<and> distinct (map week_of (weekly_fires t ds))
   \<and> (\<forall>u \<in> set (weekly_fires t ds). weekday u = 6)
   \<and> distinct (map date_of (monthly_fires mday t ds))
   \<and> (\<forall>u \<in> set (monthly_fires mday t ds). mday (date_of u) = 1)"
proof (intro conjI)
  show "distinct (map date_of (daily_fires t ds))"
    unfolding daily_fires_def using lens_pos(1)
    by (intro fires_distinct daily_due_apart) simp_all
  show "distinct (map week_of (weekly_fires t ds))"
    unfolding weekly_fires_def using lens_pos(2)
    by (intro fires_distinct weekly_due_apart) simp_all
  show "\<forall>u \<in> set (weekly_fires t ds). weekday u = 6"
    by (simp add: weekly_fires_def weekly_due_def)
  show "distinct (map date_of (monthly_fires mday t ds))"
    unfolding monthly_fires_def using lens_pos(2)
    by (intro fires_distinct monthly_due_apart) simp_all
  show "\<forall>u \<in> set (monthly_fires mday t ds). mday (date_of u) = 1"
    by (simp add: monthly_fires_def monthly_due_def)
qed

lemma not_due_no_job:
  "\<not> daily_due (utcnow env) \<Longrightarrow> generate_daily_insights_once env w = w"
  by (simp add: generate_daily_insights_once_def)

lemma due_runs_job:
  "daily_due (utcnow env) \<Longrightarrow>
     Info ''Starting daily insights generation'' \<in> set (logs (generate_daily_insights_once env w))"
proof -
  assume due: "daily_due (utcnow env)"
  let ?w0 = "log_info ''Starting daily insights generation'' w"
  have step: "\<And>v x r v'. generate_user_daily_insights env v x = (r, v') \<Longrightarrow>
      Info ''Starting daily insights generation'' \<in> set (logs v) \<Longrightarrow>
      Info ''Starting daily insights generation'' \<in> set (logs v')"
    by (auto simp: generate_user_daily_insights_def daily_insights_body_def Let_def log_error_def
        log_info_def recommendations_upsert_def split: option.splits sum.splits prod.splits if_splits)
  obtain r w' where j: "daily_job env w = (r, w')" by (cases "daily_job env w")
  have "Info ''Starting daily insights generation'' \<in> set (logs w')"
  proof (cases "query_error env ''FoodHistory'' = None \<and> query_error env ''MedicalRecords'' = None")
    case False
    with j show ?thesis
      by (auto simp: daily_job_def Let_def log_info_def split: option.splits)
  next
    case True
    let ?users = "remdups (query_users_since (utcnow env - days 30) (food_container ?w0)
                    @ query_users_since (utcnow env - days 30) (medical_container ?w0))"
    obtain r1 w1 where f: "for_each (generate_user_daily_insights env) ?users ?w0 = (r1, w1)"
      by (cases "for_each (generate_user_daily_insights env) ?users ?w0")
    have "Info ''Starting daily insights generation'' \<in> set (logs w1)"
      using for_each_preserves [of "generate_user_daily_insights env"
          "\<lambda>v. Info ''Starting daily insights generation'' \<in> set (logs v)", OF step f]
      by (simp add: log_info_def)
    with True j f show ?thesis
      by (cases r1) (auto simp: daily_job_def Let_def log_info_def)
  qed
  with due j show ?thesis
    by (cases r) (auto simp: generate_daily_insights_once_def log_error_def)
qed

lemma two_polls_same_minute:
  "daily_due (utcnow first_poll_env)" "daily_due (utcnow second_poll_env)"
  "date_of (utcnow first_poll_env) = 19676" "date_of (utcnow second_poll_env) = 19676"
  by (simp_all add: first_poll_env_def second_poll_env_def daily_due_def hour_of_def
      minute_of_def date_of_def hour_len_def minute_len_def day_len_def second_def)

lemma once_on_empty_store:
  assumes "daily_due (utcnow env)"
    and "query_error env ''FoodHistory'' = None" and "query_error env ''MedicalRecords'' = None"
    and "food_container w = []" and "medical_container w = []"
  shows "generate_daily_insights_once env w =
           w\<lparr>logs := logs w @ [Info ''Starting daily insights generation'',
                                Info ''Daily insights generated'']\<rparr>"
  using assms
  by (simp add: generate_daily_insights_once_def daily_job_def Let_def log_info_def
      query_users_since_def)

lemma two_runs_logs:
  "logs (generate_daily_insights_once second_poll_env
          (generate_daily_insights_once first_poll_env empty_world))
     = [Info ''Starting daily insights generation'', Info ''Daily insights generated'',
        Info ''Starting daily insights generation'', Info ''Daily insights generated'']"
proof -
  have q: "query_error first_poll_env name = None" "query_error second_poll_env name = None" for name
    by (simp_all add: first_poll_env_def second_poll_env_def quiet_env_def)
  have e: "food_container empty_world = []" "medical_container empty_world = []"
    "logs empty_world = []"
    by (simp_all add: empty_world_def)
  show ?thesis
    by (simp add: once_on_empty_store [OF two_polls_same_minute(1) q(1) q(1) e(1,2)]
        once_on_empty_store [OF two_polls_same_minute(2) q(2) q(2)] e)
qed

text \<open>
  C1 (as stated) fails: there is no guard keyed by date. Two iterations that read the
  clock 35 seconds apart within the matching minute, as the first iterations of two
  runs of the loop do, both run the daily job on the same calendar date.
\<close>

theorem duplicate_daily_firing_counterexample:
  "utcnow second_poll_env = utcnow first_poll_env + 35 * second
   \<and> date_of (utcnow first_poll_env) = date_of (utcnow second_poll_env)
   \<and> daily_fires (utcnow first_poll_env) [0] @ daily_fires (utcnow second_poll_env) [0]
       = [utcnow first_poll_env, utcnow second_poll_env]
   \<and> logs (generate_daily_insights_once second_poll_env
             (generate_daily_insights_once first_poll_env empty_world))
       = [Info ''Starting daily insights generation'', Info ''Daily insights generated'',
          Info ''Starting daily insights generation'', Info ''Daily insights generated'']"
  using two_polls_same_minute
  by (simp add: two_runs_logs daily_fires_def)
     (simp add: first_poll_env_def second_poll_env_def second_def)

lemma witness_fires:
  "daily_fires (1700028005 * second) [2, 0, 1] = [1700028005 * second]"
  "weekly_fires (1700382600 * second) [0, 7] = [1700382600 * second]"
  "monthly_fires first_of_november (1698804100 * second) [0, 7] = [1698804100 * second]"
  by (simp_all add: daily_fires_def weekly_fires_def monthly_fires_def daily_due_def weekly_due_def
      monthly_due_def weekday_def hour_of_def minute_of_def date_of_def first_of_november_def
      hour_len_def minute_len_def day_len_def second_def)

theorem periodic_jobs_fire_once_witness:
  "weekly_fires (1700382600 * second) [0, 7] = [1700382600 * second]
   \<and> weekday (1700382600 * second) = 6
   \<and> monthly_fires first_of_november (1698804100 * second) [0, 7] = [1698804100 * second]
   \<and> first_of_november (date_of (1698804100 * second)) = 1"
  using periodic_jobs_fire_once [of "1700382600 * second" "[0, 7]" first_of_november]
    periodic_jobs_fire_once [of "1698804100 * second" "[0, 7]" first_of_november]
  by (simp add: witness_fires)

subsection \<open>Status transitions\<close>

lemma container_of_upsert [simp]:
  "container_of name (set_container name c w) = c"
  "other_container name (set_container name c w) = other_container name w"
  by (simp_all add: container_of_def set_container_def other_container_def)

lemma containers_calls_update [simp]:
  "container_of name (w\<lparr>calls := cs\<rparr>) = container_of name w"
  "other_container name (w\<lparr>calls := cs\<rparr>) = other_container name w"
  by (simp_all add: container_of_def other_container_def)

lemma containers_log [simp]:
  "container_of name (log_error m w) = container_of name w"
  "other_container name (log_error m w) = other_container name w"
  "container_of name (log_info m w) = container_of name w"
  "other_container name (log_info m w) = other_container name w"
  by (simp_all add: container_of_def other_container_def log_error_def log_info_def)

lemma upsert_item_result:
  "upsert_item env name x w = (r, w') \<Longrightarrow>
     r = upsert_error env name x
     \<and> container_of name w' =
         (if upsert_error env name x = None then upsert_by item_key x (container_of name w)
          else container_of name w)
     \<and> other_container name w' = other_container name w"
  by (auto simp: upsert_item_def Let_def split: option.splits)

lemma process_analysis_result:
  assumes "process_analysis name kind analysis env w x = (r, w')"
  shows "(case stored_version env name analysis x of
            None \<Rightarrow> r \<noteq> None \<and> container_of name w' = container_of name w
          | Some v \<Rightarrow> r = None \<and> container_of name w' = upsert_by item_key v (container_of name w))
         \<and> other_container name w' = other_container name w"
proof (cases "analysis x")
  case (Inl e)
  let ?w0 = "log_error (''Error processing '' @ kind @ '' analysis '' @ item_id x @ '': '' @ e) w"
  from assms Inl have u: "upsert_item env name (mark_failed env x e) ?w0 = (r, w')"
    by (simp add: process_analysis_def)
  from upsert_item_result [OF u] Inl show ?thesis
    by (auto simp: stored_version_def)
next
  case (Inr results)
  let ?x' = "mark_completed env x results"
  obtain r1 w1 where u1: "upsert_item env name ?x' w = (r1, w1)"
    by (cases "upsert_item env name ?x' w")
  note a = upsert_item_result [OF u1]
  show ?thesis
  proof (cases "upsert_error env name ?x'")
    case None
    with a have "r1 = None" by simp
    with assms Inr u1 have "r = None" "w' = log_info (''Processed '' @ kind @ '' analysis for item '' @ item_id x) w1"
      by (simp_all add: process_analysis_def Let_def)
    with a None Inr show ?thesis
      by (simp add: stored_version_def)
  next
    case (Some e)
    with a have r1: "r1 = Some e" by simp
    let ?w2 = "log_error (''Error processing '' @ kind @ '' analysis '' @ item_id x @ '': '' @ e) w1"
    from assms Inr u1 r1 have u2: "upsert_item env name (mark_failed env ?x' e) ?w2 = (r, w')"
      by (simp add: process_analysis_def Let_def)
    from upsert_item_result [OF u2] a Some Inr show ?thesis
      by (auto simp: stored_version_def)
  qed
qed

lemma stored_version_terminal:
  "stored_version env name analysis x = Some v \<Longrightarrow> terminal_version env x v"
  by (auto simp: stored_version_def terminal_version_def mark_failed_def mark_completed_def
      item_key_def split: sum.splits option.splits if_splits)

lemma distinct_key_eq:
  "distinct (map key c) \<Longrightarrow> a \<in> set c \<Longrightarrow> b \<in> set c \<Longrightarrow> key a = key b \<Longrightarrow> a = b"
  by (meson distinct_map inj_onD)

lemma upsert_by_present:
  assumes "distinct (map key c)" and "x \<in> set c" and "key v = key x"
  shows "upsert_by key v c = map (\<lambda>y. if y = x then v else y) c"
proof -
  have "key v \<in> key ` set c" using assms(2,3) by auto
  moreover have "map (\<lambda>y. if key y = key v then v else y) c = map (\<lambda>y. if y = x then v else y) c"
  proof (rule map_cong [OF refl])
    fix y assume "y \<in> set c"
    with assms distinct_key_eq [of key c y x]
    show "(if key y = key v then v else y) = (if y = x then v else y)" by auto
  qed
  ultimately show ?thesis by (simp add: upsert_by_def)
qed

lemma map_replace_keys:
  "key v = key x \<Longrightarrow> map key (map (\<lambda>y. if y = x then v else y) c) = map key c"
  by (induction c) auto

lemma for_each_process_result:
  assumes "distinct (map item_key (container_of name w))"
    and "set xs \<subseteq> set (container_of name w)" and "distinct xs"
    and "for_each (process_analysis name kind analysis env) xs w = (r, w')"
  shows "container_of name w' =
           map (\<lambda>y. if y \<in> set (processed_prefix env name analysis xs)
                     then the (stored_version env name analysis y) else y) (container_of name w)
         \<and> other_container name w' = other_container name w
         \<and> (r = None \<longleftrightarrow> (\<forall>x \<in> set xs. stored_version env name analysis x \<noteq> None))"
  using assms
proof (induction xs arbitrary: w)
  case Nil
  then show ?case by (simp add: processed_prefix_def)
next
  case (Cons x xs)
  let ?c = "container_of name w"
  let ?sv = "stored_version env name analysis"
  obtain r1 w1 where p: "process_analysis name kind analysis env w x = (r1, w1)"
    by (cases "process_analysis name kind analysis env w x")
  note res = process_analysis_result [OF p]
  show ?case
  proof (cases "?sv x")
    case None
    with res have "r1 \<noteq> None" "container_of name w1 = ?c"
      "other_container name w1 = other_container name w"
      by simp_all
    moreover from this(1) Cons.prems(4) p have "r = r1" "w' = w1" by auto
    ultimately show ?thesis using None
      by (simp add: processed_prefix_def)
  next
    case (Some v)
    with res have r1: "r1 = None" and c1: "container_of name w1 = upsert_by item_key v ?c"
      and o1: "other_container name w1 = other_container name w"
      by simp_all
    from stored_version_terminal [OF Some] have kv: "item_key v = item_key x"
      by (simp add: terminal_version_def)
    from Cons.prems(2) have xc: "x \<in> set ?c" by simp
    have c1': "container_of name w1 = map (\<lambda>y. if y = x then v else y) ?c"
      using c1 upsert_by_present [OF Cons.prems(1) xc kv] by simp
    have "map item_key (container_of name w1) = map item_key ?c"
      unfolding c1' by (rule map_replace_keys [of item_key v x ?c, OF kv])
    then have d1: "distinct (map item_key (container_of name w1))"
      using Cons.prems(1) by (simp only:)
    have x_out: "x \<notin> set xs" using Cons.prems(3) by simp
    have s1: "set xs \<subseteq> set (container_of name w1)"
    proof
      fix z assume z: "z \<in> set xs"
      with Cons.prems(2) x_out have "z \<in> set ?c" "z \<noteq> x" by auto
      then show "z \<in> set (container_of name w1)"
        unfolding c1' by (auto simp: image_iff intro!: bexI [of _ z])
    qed
    from Cons.prems(4) p r1 have f: "for_each (process_analysis name kind analysis env) xs w1 = (r, w')"
      by simp
    from Cons.prems(3) have dxs: "distinct xs" by simp
    note ih = Cons.IH [OF d1 s1 dxs f]
    have v_out: "v \<notin> set xs"
    proof
      assume "v \<in> set xs"
      with Cons.prems(2) have "v \<in> set ?c" by auto
      from distinct_key_eq [OF Cons.prems(1) this xc kv] \<open>v \<in> set xs\<close> x_out
      show False by simp
    qed
    have pp: "processed_prefix env name analysis (x # xs) = x # processed_prefix env name analysis xs"
      using Some by (simp add: processed_prefix_def)
    have sub: "set (processed_prefix env name analysis xs) \<subseteq> set xs"
      unfolding processed_prefix_def by (auto dest: set_takeWhileD)
    have "map (\<lambda>y. if y \<in> set (processed_prefix env name analysis xs) then the (?sv y) else y)
            (map (\<lambda>y. if y = x then v else y) ?c)
          = map (\<lambda>y. if y \<in> set (processed_prefix env name analysis (x # xs))
                      then the (?sv y) else y) ?c"
      using v_out sub Some unfolding pp by (auto simp: comp_def)
    with ih c1' o1 Some show ?thesis by simp
  qed
qed

lemma query_pending_facts:
  "set (query_pending c) \<subseteq> set c"
  "x \<in> set (query_pending c) \<Longrightarrow> status x = ''pending''"
  "distinct (map key c) \<Longrightarrow> distinct (query_pending c)"
  by (auto simp: query_pending_def dest: distinct_map [THEN iffD1])

lemma for_each_process_steps:
  assumes d: "distinct (map item_key (container_of name w))"
    and f: "for_each (process_analysis name kind analysis env)
              (query_pending (container_of name w)) w = (r, w')"
  shows "\<exists>g. container_of name w' = map g (container_of name w)
           \<and> (\<forall>y \<in> set (container_of name w). step_of env y (g y))
           \<and> (\<forall>y \<in> set (container_of name w). item_key (g y) = item_key y)"
    and "other_container name w' = other_container name w"
proof -
  let ?c = "container_of name w"
  let ?xs = "query_pending ?c"
  let ?sv = "stored_version env name analysis"
  let ?g = "\<lambda>y. if y \<in> set (processed_prefix env name analysis ?xs) then the (?sv y) else y"
  note res = for_each_process_result [OF d query_pending_facts(1) query_pending_facts(3) [OF d] f]
  from res show "other_container name w' = other_container name w" by simp
  have g: "step_of env y (?g y) \<and> item_key (?g y) = item_key y" if "y \<in> set ?c" for y
  proof (cases "y \<in> set (processed_prefix env name analysis ?xs)")
    case False
    then show ?thesis by (simp add: step_of_def)
  next
    case True
    then have "y \<in> set ?xs" "?sv y \<noteq> None"
      unfolding processed_prefix_def by (auto dest: set_takeWhileD)
    then obtain v where v: "?sv y = Some v" and p: "status y = ''pending''"
      using query_pending_facts(2) by auto
    from stored_version_terminal [OF v] p True v show ?thesis
      by (simp add: step_of_def terminal_version_def)
  qed
  from res g show "\<exists>g. container_of name w' = map g ?c
           \<and> (\<forall>y \<in> set ?c. step_of env y (g y))
           \<and> (\<forall>y \<in> set ?c. item_key (g y) = item_key y)"
    by (intro exI [of _ ?g]) simp
qed

lemma drainOnce_steps:
  assumes df: "distinct (map item_key (food_container w))"
    and dm: "distinct (map item_key (medical_container w))"
  shows "\<exists>gf gm.
      food_container (drainOnce env w) = map gf (food_container w)
    \<and> medical_container (drainOnce env w) = map gm (medical_container w)
    \<and> (\<forall>y \<in> set (food_container w). step_of env y (gf y) \<and> item_key (gf y) = item_key y)
    \<and> (\<forall>y \<in> set (medical_container w). step_of env y (gm y) \<and> item_key (gm y) = item_key y)"
proof -
  have id: "\<exists>gf gm.
      food_container w = map gf (food_container w)
    \<and> medical_container w = map gm (medical_container w)
    \<and> (\<forall>y \<in> set (food_container w). step_of env y (gf y) \<and> item_key (gf y) = item_key y)
    \<and> (\<forall>y \<in> set (medical_container w). step_of env y (gm y) \<and> item_key (gm y) = item_key y)"
    by (intro exI [of _ "\<lambda>y. y"]) (simp add: step_of_def)
  obtain r w' where b: "drain_body env w = (r, w')" by (cases "drain_body env w")
  have c: "food_container (drainOnce env w) = food_container w'"
    "medical_container (drainOnce env w) = medical_container w'"
    using b by (cases r; simp add: drainOnce_def log_error_def)+
  show ?thesis
  proof (cases "query_error env ''FoodHistory'' = None \<and> query_error env ''MedicalRecords'' = None")
    case False
    with b have "w' = w"
      by (auto simp: drain_body_def Let_def split: option.splits)
    with id c show ?thesis by simp
  next
    case True
    let ?pf = "query_pending (food_container w)"
    obtain r1 w1 where f: "for_each (process_food_analysis env) ?pf w = (r1, w1)"
      by (cases "for_each (process_food_analysis env) ?pf w")
    have pfa: "process_food_analysis env = process_analysis ''FoodHistory'' ''food'' (food_analysis env) env"
      by (intro ext) (simp add: process_food_analysis_def)
    have pma: "process_medical_analysis env = process_analysis ''MedicalRecords'' ''medical'' (medical_analysis env) env"
      by (intro ext) (simp add: process_medical_analysis_def)
    from for_each_process_steps [of "''FoodHistory''" w "''food''" "food_analysis env" env r1 w1]
      df f pfa
    obtain gf where gf: "food_container w1 = map gf (food_container w)"
      "\<forall>y \<in> set (food_container w). step_of env y (gf y)"
      "\<forall>y \<in> set (food_container w). item_key (gf y) = item_key y"
      and m1: "medical_container w1 = medical_container w"
      by (auto simp: container_of_def other_container_def)
    show ?thesis
    proof (cases r1)
      case (Some e)
      with True b f have "w' = w1" by (simp add: drain_body_def Let_def)
      with gf m1 c show ?thesis
        by (intro exI [of _ gf] exI [of _ "\<lambda>y. y"]) (simp add: step_of_def)
    next
      case None
      with True b f m1 have g: "for_each (process_medical_analysis env)
          (query_pending (medical_container w1)) w1 = (r, w')"
        by (simp add: drain_body_def Let_def)
      have dm1: "distinct (map item_key (container_of ''MedicalRecords'' w1))"
        using dm m1 by (simp add: container_of_def)
      from for_each_process_steps [of "''MedicalRecords''" w1 "''medical''" "medical_analysis env" env r w']
        dm1 g pma
      obtain gm where gm: "medical_container w' = map gm (medical_container w1)"
        "\<forall>y \<in> set (medical_container w1). step_of env y (gm y)"
        "\<forall>y \<in> set (medical_container w1). item_key (gm y) = item_key y"
        and f1: "food_container w' = food_container w1"
        by (auto simp: container_of_def other_container_def)
      with gf m1 c show ?thesis
        by (intro exI [of _ gf] exI [of _ gm]) simp
    qed
  qed
qed

lemma evolves_refl: "evolves T a a"
  by (simp add: evolves_def)

lemma evolves_trans:
  "evolves T1 a m \<Longrightarrow> evolves T2 m b \<Longrightarrow> evolves (T1 \<union> T2) a b"
  by (auto simp: evolves_def)

lemma step_of_evolves: "step_of env a b \<Longrightarrow> evolves {utcnow env} a b"
  by (auto simp: step_of_def evolves_def terminal_version_def)

lemma map_same_keys:
  "\<forall>y \<in> set c. key (g y) = key y \<Longrightarrow> map key (map g c) = map key c"
  by (induction c) auto

lemma run_operation_evolves:
  assumes "store_ok w"
  shows "store_ok (run_operation op w)"
    and "\<forall>b \<in> set (food_container (run_operation op w)).
           \<exists>a \<in> set (food_container w). evolves (set (drain_time op)) a b"
    and "\<forall>b \<in> set (medical_container (run_operation op w)).
           \<exists>a \<in> set (medical_container w). evolves (set (drain_time op)) a b"
proof -
  from assms have df: "distinct (map item_key (food_container w))"
    and dm: "distinct (map item_key (medical_container w))"
    by (simp_all add: store_ok_def)
  have "store_ok (run_operation op w)
    \<and> (\<forall>b \<in> set (food_container (run_operation op w)).
           \<exists>a \<in> set (food_container w). evolves (set (drain_time op)) a b)
    \<and> (\<forall>b \<in> set (medical_container (run_operation op w)).
           \<exists>a \<in> set (medical_container w). evolves (set (drain_time op)) a b)"
  proof (cases op)
    case (Drain env)
    from drainOnce_steps [OF df dm, of env] obtain gf gm where g:
      "food_container (drainOnce env w) = map gf (food_container w)"
      "medical_container (drainOnce env w) = map gm (medical_container w)"
      "\<forall>y \<in> set (food_container w). step_of env y (gf y) \<and> item_key (gf y) = item_key y"
      "\<forall>y \<in> set (medical_container w). step_of env y (gm y) \<and> item_key (gm y) = item_key y"
      by blast
    have "map item_key (map gf (food_container w)) = map item_key (food_container w)"
      using g(3) by (intro map_same_keys) simp
    moreover have "map item_key (map gm (medical_container w)) = map item_key (medical_container w)"
      using g(4) by (intro map_same_keys) simp
    ultimately have "store_ok (drainOnce env w)"
      using df dm g(1,2) by (simp only: store_ok_def)
    moreover have "\<forall>b \<in> set (food_container (drainOnce env w)).
           \<exists>a \<in> set (food_container w). evolves {utcnow env} a b"
      using g(1,3) by (auto intro: step_of_evolves)
    moreover have "\<forall>b \<in> set (medical_container (drainOnce env w)).
           \<exists>a \<in> set (medical_container w). evolves {utcnow env} a b"
      using g(2,4) by (auto intro: step_of_evolves)
    ultimately show ?thesis using Drain by simp
  next
    case (Cleanup env)
    from cleanup_run_containers [of env w] obtain dfs dms where c:
      "food_container (cleanup_run env w)
         = filter (\<lambda>y. item_key y \<notin> item_key ` set dfs) (food_container w)"
      "medical_container (cleanup_run env w)
         = filter (\<lambda>y. item_key y \<notin> item_key ` set dms) (medical_container w)"
      by blast
    have "store_ok (cleanup_run env w)"
      using df dm c by (simp add: store_ok_def distinct_map_filter)
    moreover have "\<forall>b \<in> set (food_container (cleanup_run env w)).
           \<exists>a \<in> set (food_container w). evolves {} a b"
      using c(1) by (auto intro: evolves_refl)
    moreover have "\<forall>b \<in> set (medical_container (cleanup_run env w)).
           \<exists>a \<in> set (medical_container w). evolves {} a b"
      using c(2) by (auto intro: evolves_refl)
    ultimately show ?thesis using Cleanup by simp
  qed
  then show "store_ok (run_operation op w)"
    and "\<forall>b \<in> set (food_container (run_operation op w)).
           \<exists>a \<in> set (food_container w). evolves (set (drain_time op)) a b"
    and "\<forall>b \<in> set (medical_container (run_operation op w)).
           \<exists>a \<in> set (medical_container w). evolves (set (drain_time op)) a b"
    by simp_all
qed

lemma run_operations_evolves:
  "store_ok w \<Longrightarrow>
     store_ok (run_operations ops w)
     \<and> (\<forall>b \<in> set (food_container (run_operations ops w)).
           \<exists>a \<in> set (food_container w). evolves (drain_times ops) a b)
     \<and> (\<forall>b \<in> set (medical_container (run_operations ops w)).
           \<exists>a \<in> set (medical_container w). evolves (drain_times ops) a b)"
proof (induction ops arbitrary: w)
  case Nil
  then show ?case
    by (auto simp: run_operations_def intro: evolves_refl)
next
  case (Cons op ops)
  let ?w1 = "run_operation op w"
  note s = run_operation_evolves [OF Cons.prems, of op]
  note ih = Cons.IH [OF s(1)]
  have r: "run_operations (op # ops) w = run_operations ops ?w1"
    by (simp add: run_operations_def)
  have t: "drain_times (op # ops) = set (drain_time op) \<union> drain_times ops"
    by (simp add: drain_times_def)
  have "\<exists>a \<in> set (food_container w). evolves (drain_times (op # ops)) a b"
    if "b \<in> set (food_container (run_operations ops ?w1))" for b
  proof -
    from ih that obtain m where m: "m \<in> set (food_container ?w1)" "evolves (drain_times ops) m b"
      by blast
    from s(2) m(1) obtain a where a: "a \<in> set (food_container w)" "evolves (set (drain_time op)) a m"
      by blast
    from evolves_trans [OF a(2) m(2)] a(1) t show ?thesis by auto
  qed
  moreover have "\<exists>a \<in> set (medical_container w). evolves (drain_times (op # ops)) a b"
    if "b \<in> set (medical_container (run_operations ops ?w1))" for b
  proof -
    from ih that obtain m where m: "m \<in> set (medical_container ?w1)" "evolves (drain_times ops) m b"
      by blast
    from s(3) m(1) obtain a where a: "a \<in> set (medical_container w)" "evolves (set (drain_time op)) a m"
      by blast
    from evolves_trans [OF a(2) m(2)] a(1) t show ?thesis by auto
  qed
  ultimately show ?case using ih r by auto
qed

text \<open>
  C3. In a store with one document per key, after any sequence of drains and cleanup
  runs every stored item is either identical to the item stored under its key at the
  start (status, \<^verbatim>\<open>processedAt\<close> and every other field), or that item was pending and
  the stored one is completed or failed with \<^verbatim>\<open>processedAt\<close> the instant of one of the
  drains. So an item that is completed or failed is never changed again, no item appears
  that was not there, and \<^verbatim>\<open>processedAt\<close> is written at the transition out of pending
  only.
\<close>

theorem status_never_reverts:
  assumes "distinct (map item_key (food_container w))"
    and "distinct (map item_key (medical_container w))"
  shows "(\<forall>b \<in> set (food_container (run_operations ops w)).
           \<exists>a \<in> set (food_container w). evolves (drain_times ops) a b)
     \<and> (\<forall>b \<in> set (medical_container (run_operations ops w)).
           \<exists>a \<in> set (medical_container w). evolves (drain_times ops) a b)
     \<and> distinct (map item_key (food_container (run_operations ops w)))
     \<and> distinct (map item_key (medical_container (run_operations ops w)))"
  using run_operations_evolves [of w ops] assms
  by (simp add: store_ok_def)

lemma drain_array_recent:
  "drainOnce array_env recent_world =
     recent_world\<lparr>food_container :=
                    [mark_failed array_env (pending_item ''f1'' ''u1'' (1699990000 * second))
                       ''list object has no attribute get''],
                  medical_container :=
                    [mark_failed array_env (pending_item ''m1'' ''u1'' (1699980000 * second))
                       ''list object has no attribute get''],
                  calls :=
                    [UpsertItem ''FoodHistory''
                       (mark_failed array_env (pending_item ''f1'' ''u1'' (1699990000 * second))
                          ''list object has no attribute get''),
                     UpsertItem ''MedicalRecords''
                       (mark_failed array_env (pending_item ''m1'' ''u1'' (1699980000 * second))
                          ''list object has no attribute get'')],
                  logs :=
                    [Error ''Error processing food analysis f1: list object has no attribute get'',
                     Error ''Error processing medical analysis m1: list object has no attribute get'']\<rparr>"
  by (simp add: drainOnce_def drain_body_def query_pending_def recent_world_def empty_world_def
      pending_item_def process_food_analysis_def process_medical_analysis_def process_analysis_def
      food_analysis_def medical_analysis_def food_response_def medical_response_def
      food_results_def medical_results_def upsert_item_def array_env_def quiet_env_def
      mark_failed_def log_error_def set_container_def container_of_def upsert_by_def item_key_def
      dict_get_def Let_def)

lemma three_operations_food:
  "food_container (run_operations [Drain array_env, Cleanup quiet_env, Drain quiet_env] recent_world)
     = [mark_failed array_env (pending_item ''f1'' ''u1'' (1699990000 * second))
          ''list object has no attribute get'']"
  by (simp add: run_operations_def drain_array_recent)
     (simp add: drainOnce_def drain_body_def query_pending_def recent_world_def empty_world_def
      pending_item_def cleanup_run_def cleanup_job_def cleanup_old_blobs_def sweep_container_def
      query_old_food_def query_old_medical_def blobs_of_def
      quiet_env_def array_env_def mark_failed_def log_error_def log_info_def Let_def
      days_def day_len_def second_def)

theorem status_never_reverts_witness:
  "food_container (run_operations [Drain array_env, Cleanup quiet_env, Drain quiet_env] recent_world)
     = [mark_failed array_env (pending_item ''f1'' ''u1'' (1699990000 * second))
          ''list object has no attribute get'']
   \<and> evolves (drain_times [Drain array_env, Cleanup quiet_env, Drain quiet_env])
         (pending_item ''f1'' ''u1'' (1699990000 * second))
         (mark_failed array_env (pending_item ''f1'' ''u1'' (1699990000 * second))
            ''list object has no attribute get'')"
proof -
  have d: "distinct (map item_key (food_container recent_world))"
    "distinct (map item_key (medical_container recent_world))"
    by (simp_all add: recent_world_def empty_world_def)
  have f: "food_container recent_world = [pending_item ''f1'' ''u1'' (1699990000 * second)]"
    by (simp add: recent_world_def empty_world_def)
  from status_never_reverts [OF d, of "[Drain array_env, Cleanup quiet_env, Drain quiet_env]"]
  show ?thesis
    by (simp add: three_operations_food f)
qed

subsection \<open>Failed items\<close>





lemma final_version_key [simp]: "item_key (final_version env analysis x) = item_key x"
  by (simp add: final_version_def split: sum.splits)













end
